theory Spec2Isabelle
  imports Complex_Main
begin

section \<open>Python strings\<close>

text \<open>
  A Python \<open>str\<close> is modelled as an Isabelle \<open>string\<close>: a list of characters whose
  code points lie below 256 (Latin-1), so that \<open>len\<close> is \<open>length\<close>. The character
  classes below are the ones CPython uses for \<open>str.strip\<close>, \<open>\s\<close> and \<open>\w\<close>, cut down to
  that range.
\<close>

definition code :: "char \<Rightarrow> nat" where
  "code c = of_char c"

definition is_space :: "char \<Rightarrow> bool" where
  \<comment> \<open>\<open>str.isspace\<close>: TAB LF VT FF CR, FS GS RS US, SPACE, NEL, NBSP\<close>
  "is_space c = (let n = code c in (9 \<le> n \<and> n \<le> 13) \<or> (28 \<le> n \<and> n \<le> 32) \<or> n = 133 \<or> n = 160)"

definition is_ascii_upper :: "char \<Rightarrow> bool" where
  "is_ascii_upper c = (let n = code c in 65 \<le> n \<and> n \<le> 90)"

definition is_ascii_lower :: "char \<Rightarrow> bool" where
  "is_ascii_lower c = (let n = code c in 97 \<le> n \<and> n \<le> 122)"

definition is_ascii_digit :: "char \<Rightarrow> bool" where
  "is_ascii_digit c = (let n = code c in 48 \<le> n \<and> n \<le> 57)"

definition is_word :: "char \<Rightarrow> bool" where
  \<comment> \<open>\<open>\w\<close> on a \<open>str\<close> pattern: \<open>str.isalnum\<close> or underscore\<close>
  "is_word c = (let n = code c in
     is_ascii_digit c \<or> is_ascii_upper c \<or> is_ascii_lower c \<or> n = 95 \<or>
     n = 170 \<or> n = 178 \<or> n = 179 \<or> n = 181 \<or> n = 185 \<or> n = 186 \<or>
     (188 \<le> n \<and> n \<le> 190) \<or> (192 \<le> n \<and> n \<le> 214) \<or>
     (216 \<le> n \<and> n \<le> 246) \<or> (248 \<le> n \<and> n \<le> 255))"

definition lower :: "char \<Rightarrow> char" where
  \<comment> \<open>case folding of the ASCII letters, all that the literals of the patterns need\<close>
  "lower c = (if is_ascii_upper c then char_of (code c + 32) else c)"

definition strip :: "string \<Rightarrow> string" where
  \<comment> \<open>\<open>str.strip()\<close>\<close>
  "strip s = rev (dropWhile is_space (rev (dropWhile is_space s)))"

fun str_nat :: "nat \<Rightarrow> string" where
  "str_nat n = (if n < 10 then [''0123456789'' ! n] else str_nat (n div 10) @ [''0123456789'' ! (n mod 10)])"

declare str_nat.simps [simp del]

definition str_int :: "int \<Rightarrow> string" where
  \<comment> \<open>\<open>str(n)\<close> of an integer\<close>
  "str_int i = (if i < 0 then CHR ''-'' # str_nat (nat (- i)) else str_nat (nat i))"

section \<open>Regular expressions, as \<open>re.search\<close> with \<open>re.IGNORECASE\<close> uses them\<close>

datatype cls =
    Lit char    \<comment> \<open>a literal character, compared without case\<close>
  | Dot         \<comment> \<open>\<open>.\<close>: any character but a newline\<close>
  | WordC       \<comment> \<open>\<open>\w\<close>\<close>
  | SpaceC      \<comment> \<open>\<open>\s\<close>\<close>

fun cls_match :: "cls \<Rightarrow> char \<Rightarrow> bool" where
  "cls_match (Lit l) c = (lower c = lower l)"
| "cls_match Dot c = (c \<noteq> CHR 0x0A)"
| "cls_match WordC c = is_word c"
| "cls_match SpaceC c = is_space c"

datatype rx = Zero | One | Atom cls | Alt rx rx | Seq rx rx | Star rx

fun lits :: "string \<Rightarrow> rx" where
  "lits [] = One"
| "lits (c # cs) = Seq (Atom (Lit c)) (lits cs)"

definition Plus :: "rx \<Rightarrow> rx" where
  "Plus r = Seq r (Star r)"

fun nullable :: "rx \<Rightarrow> bool" where
  "nullable Zero = False"
| "nullable One = True"
| "nullable (Atom a) = False"
| "nullable (Alt r s) = (nullable r \<or> nullable s)"
| "nullable (Seq r s) = (nullable r \<and> nullable s)"
| "nullable (Star r) = True"

fun deriv :: "char \<Rightarrow> rx \<Rightarrow> rx" where
  "deriv c Zero = Zero"
| "deriv c One = Zero"
| "deriv c (Atom a) = (if cls_match a c then One else Zero)"
| "deriv c (Alt r s) = Alt (deriv c r) (deriv c s)"
| "deriv c (Seq r s) =
     (if nullable r then Alt (Seq (deriv c r) s) (deriv c s) else Seq (deriv c r) s)"
| "deriv c (Star r) = Seq (deriv c r) (Star r)"

fun match_prefix :: "rx \<Rightarrow> string \<Rightarrow> bool" where
  \<comment> \<open>\<open>re.match\<close>: some prefix of the text is matched\<close>
  "match_prefix r [] = nullable r"
| "match_prefix r (c # cs) = (nullable r \<or> match_prefix (deriv c r) cs)"

fun re_search :: "rx \<Rightarrow> string \<Rightarrow> bool" where
  \<comment> \<open>\<open>re.search(pattern, text, re.IGNORECASE)\<close> is not \<open>None\<close>\<close>
  "re_search r [] = nullable r"
| "re_search r (c # cs) = (match_prefix r (c # cs) \<or> re_search r cs)"

text \<open>
  The words a pattern matches, as a reference for the matcher above: \<open>re_search r s\<close> holds
  exactly when some part of \<open>s\<close> is such a word (lemma \<open>re_search_iff\<close> below).
\<close>

inductive matches :: "rx \<Rightarrow> string \<Rightarrow> bool" where
  m_One: "matches One []"
| m_Atom: "cls_match a c \<Longrightarrow> matches (Atom a) [c]"
| m_AltL: "matches r w \<Longrightarrow> matches (Alt r s) w"
| m_AltR: "matches s w \<Longrightarrow> matches (Alt r s) w"
| m_Seq: "matches r u \<Longrightarrow> matches s v \<Longrightarrow> matches (Seq r s) (u @ v)"
| m_Star0: "matches (Star r) []"
| m_StarS: "matches r u \<Longrightarrow> matches (Star r) v \<Longrightarrow> matches (Star r) (u @ v)"

section \<open>utils/text\_processing.py\<close>

datatype py_value = Str string | NonStr
  \<comment> \<open>an argument that may or may not be a \<open>str\<close> (\<open>isinstance(text, str)\<close>)\<close>

definition seqs :: "rx list \<Rightarrow> rx" where
  "seqs rs = foldr Seq rs One"

definition suspicious_patterns :: "rx list" where
  \<comment> \<open>a lazy \<open>.*?\<close> finds a match exactly when \<open>.*\<close> does\<close>
  "suspicious_patterns =
    [ seqs [lits ''<script'', Star (Atom Dot), lits ''>'', Star (Atom Dot), lits ''</script>''],
      lits ''javascript:'',
      seqs [lits ''on'', Plus (Atom WordC), Star (Atom SpaceC), lits ''=''],
      lits ''data:text/html'' ]"

definition validate_input :: "py_value \<Rightarrow> int \<Rightarrow> bool \<times> string" where
  "validate_input text max_length =
    (case text of
       NonStr \<Rightarrow> (False, ''Input must be a string'')
     | Str t \<Rightarrow>
        (let text = strip t in
         if text = [] then (False, ''Input cannot be empty'')
         else if int (length text) > max_length then
           (False, ''Input too long (max '' @ str_int max_length @ '' characters)'')
         else if list_ex (\<lambda>pattern. re_search pattern text) suspicious_patterns then
           (False, ''Input contains suspicious content'')
         else (True, [])))"

function replace :: "string \<Rightarrow> string \<Rightarrow> string \<Rightarrow> string" where
  \<comment> \<open>\<open>s.replace(old, new)\<close> for a non-empty \<open>old\<close>: leftmost occurrences, not overlapping\<close>
  "replace old new s =
    (if s = [] \<or> old = [] then s
     else if take (length old) s = old then new @ replace old new (drop (length old) s)
     else hd s # replace old new (tl s))"
  by pat_completeness auto
termination
  by (relation "measure (\<lambda>(old, new, s). length s)") auto

declare replace.simps [simp del]

definition filename_char_ok :: "char \<Rightarrow> bool" where
  \<comment> \<open>the class \<open>[a-zA-Z0-9._-]\<close>\<close>
  "filename_char_ok c =
    (is_ascii_lower c \<or> is_ascii_upper c \<or> is_ascii_digit c \<or>
     c = CHR ''.'' \<or> c = CHR ''_'' \<or> c = CHR ''-'')"

definition sanitize_filename :: "py_value \<Rightarrow> string" where
  "sanitize_filename filename =
    (case filename of
       NonStr \<Rightarrow> ''unknown_file''
     | Str f \<Rightarrow>
        (let f1 = replace [CHR 0x5C] [] (replace ''/'' [] (replace ''..'' [] f));
             f2 = map (\<lambda>c. if filename_char_ok c then c else CHR ''_'') f1
         in if f2 = [] then ''unknown_file'' else f2))"

definition py_slice :: "string \<Rightarrow> int \<Rightarrow> int \<Rightarrow> string" where
  \<comment> \<open>\<open>text[start:end]\<close>: a negative index counts from the end, both are clamped\<close>
  "py_slice text i j =
    (let n = int (length text);
         clamp = (\<lambda>k. if k < 0 then max (k + n) 0 else min k n);
         a = clamp i; b = clamp j
     in take (nat (b - a)) (drop (nat a) text))"

partial_function (option) chunk_loop ::
  "string \<Rightarrow> int \<Rightarrow> int \<Rightarrow> int \<Rightarrow> string list \<Rightarrow> string list option" where
  "chunk_loop text chunk_size overlap start chunks =
    (if start < int (length text) then
       (let end = min (start + chunk_size) (int (length text));
            chunk = py_slice text start end;
            chunks' = (if strip chunk \<noteq> [] then chunks @ [chunk] else chunks);
            start' = (if overlap > 0 then end - overlap else end)
        in if start' \<ge> end then Some chunks'
           else chunk_loop text chunk_size overlap start' chunks')
     else Some chunks)"

definition chunk_text :: "string \<Rightarrow> int \<Rightarrow> int \<Rightarrow> string list option" where
  \<comment> \<open>\<open>None\<close>: the loop never returns\<close>
  "chunk_text text chunk_size overlap =
    (if text = [] \<or> chunk_size \<le> 0 then Some []
     else chunk_loop text chunk_size overlap 0 [])"

section \<open>Exceptions, events and the collaborators\<close>

text \<open>
  A raised exception is a value; \<open>exc_str\<close> is \<open>str(e)\<close>. \<open>PermissionError\<close> is kept apart
  because the directory cleaning treats it differently from any other \<open>Exception\<close>.
\<close>

datatype py_exception = PermissionError string | Exception string

fun exc_str :: "py_exception \<Rightarrow> string" where
  "exc_str (PermissionError m) = m"
| "exc_str (Exception m) = m"

text \<open>
  What a function does besides returning is recorded as a list of events, in order: every
  call of a collaborator (generator, embedder, index store, file system) and every log
  record of level WARNING or ERROR. INFO records are left out throughout.
\<close>

datatype level = WARNING | ERROR

datatype event =
    Log level string
  | LLMInvoke string               \<comment> \<open>\<open>llm.invoke(prompt)\<close>\<close>
  | EmbedQuery string              \<comment> \<open>\<open>embedding_model.embed_query(text)\<close>\<close>
  | SimilaritySearch string int    \<comment> \<open>\<open>vector_db.similarity_search_with_score(query, k=k)\<close>\<close>
  | ChromaOpen                     \<comment> \<open>\<open>Chroma(persist_directory=..., embedding_function=...)\<close>\<close>
  | ChromaCount                    \<comment> \<open>\<open>temp_db._collection.count()\<close>\<close>
  | ChromaFromDocuments nat        \<comment> \<open>\<open>Chroma.from_documents\<close> on that many chunks\<close>
  | EraseAttempt nat               \<comment> \<open>listing the directory and removing its items\<close>
  | Sleep                          \<comment> \<open>\<open>time.sleep(Config.RETRY_DELAY)\<close>\<close>

fun is_component_call :: "event \<Rightarrow> bool" where
  "is_component_call (Log l m) = False"
| "is_component_call (EraseAttempt n) = False"
| "is_component_call Sleep = False"
| "is_component_call e = True"

record Document =
  page_content :: string
  meta_source_file :: "string option"   \<comment> \<open>\<open>metadata.get('source_file')\<close>\<close>
  meta_page :: "string option"          \<comment> \<open>\<open>metadata.get('page')\<close>, already through \<open>str\<close>\<close>

record llm_handle =
  invoke :: "string \<Rightarrow> py_exception + string"
    \<comment> \<open>the text of the response (\<open>response.content\<close>, or \<open>str(response)\<close>)\<close>

record embedder =
  embed_query :: "string \<Rightarrow> py_exception + real list"

record chroma =
  similarity_search_with_score :: "string \<Rightarrow> int \<Rightarrow> py_exception + (Document \<times> real) list"
  collection_count :: "py_exception + nat"

section \<open>config.py\<close>

text \<open>
  The persist directory of the index, as the code observes it: whether it exists, whether
  listing it finds anything, and what opening it with \<open>Chroma(persist_directory=...)\<close>
  gives. It is the one part of the disk that the code both reads and changes.
\<close>

datatype persist_dir =
    Missing                           \<comment> \<open>\<open>os.path.exists\<close> is false\<close>
  | Unreadable py_exception           \<comment> \<open>\<open>os.scandir\<close> raises\<close>
  | Empty                             \<comment> \<open>\<open>any(os.scandir(...))\<close> is false\<close>
  | Holding "py_exception + chroma"   \<comment> \<open>not empty; what opening the index gives\<close>

text \<open>
  The configuration read from the environment, and what the world outside the process
  answers when it is asked: constructors of the three components, the corpus on disk, and
  the operations on the persist directory.
\<close>

record env =
  GROQ_API_KEY :: "string option"
  DEFAULT_K_RETRIEVAL :: int
  pdf_folder_exists :: bool
  pdf_folder_makedirs :: "py_exception option"
  ChatGroq_new :: "py_exception + llm_handle"
  HuggingFaceEmbeddings_new :: "py_exception + embedder"
  corpus_load :: "py_exception + (Document list \<times> string list)"
    \<comment> \<open>the pages and the file names that loading the PDF and CSV files ends with\<close>
  split_documents :: "Document list \<Rightarrow> py_exception + Document list"
  persist_makedirs :: "py_exception option"
    \<comment> \<open>what \<open>os.makedirs(Config.CHROMA_PERSIST_DIR, exist_ok=True)\<close> raises, if anything\<close>
  erase_attempt :: "nat \<Rightarrow> py_exception option"
    \<comment> \<open>what removing the items of the directory raises at the given attempt, if anything\<close>
  Chroma_from_documents :: "persist_dir \<Rightarrow> Document list \<Rightarrow> (py_exception + chroma) \<times> persist_dir"
    \<comment> \<open>building an index in the directory as it is: the handle or the exception, and the
        directory afterwards\<close>

definition MAX_REBUILD_ATTEMPTS :: nat where
  "MAX_REBUILD_ATTEMPTS = 3"

definition falsy :: "string option \<Rightarrow> bool" where
  \<comment> \<open>\<open>not s\<close> for an optional string: \<open>None\<close> or empty\<close>
  "falsy s = (s = None \<or> s = Some [])"

definition Config_validate :: "env \<Rightarrow> string option" where
  "Config_validate e =
    (if falsy (GROQ_API_KEY e) then Some ''GROQ_API_KEY environment variable is required''
     else if \<not> pdf_folder_exists e then
       (case pdf_folder_makedirs e of
          Some x \<Rightarrow> Some (''Cannot create PDF folder: '' @ exc_str x)
        | None \<Rightarrow> None)
     else None)"

section \<open>models/chat\_models.py\<close>

datatype ChatMode = RAG | LLM_ONLY | UNAVAILABLE

record DocumentSource =
  source_file :: string
  page :: string
  score :: real

record ChatRequest =
  message :: string
  k_context :: "int option"

datatype json_k = KInt int | KBad | KOverflow
  \<comment> \<open>a \<open>k_context\<close> value that \<open>int()\<close> converts to the given integer, one it rejects
      with \<open>ValueError\<close> or \<open>TypeError\<close>, or one it rejects with \<open>OverflowError\<close> (an infinite
      float)\<close>

datatype http_request = NotJson | JsonNonObject | Json "py_value option" "json_k option"
  \<comment> \<open>no JSON; a JSON body that is not an object; or an object, with its \<open>message\<close> and
      \<open>k_context\<close> entries, \<open>None\<close> when absent\<close>

datatype from_dict_result = Parsed ChatRequest | ValueError string | OtherError

definition from_dict :: "py_value option \<Rightarrow> json_k option \<Rightarrow> from_dict_result" where
  \<comment> \<open>\<open>OtherError\<close>: an exception that is not a \<open>ValueError\<close> leaves \<open>from_dict\<close>\<close>
  "from_dict m k =
    (case (case m of None \<Rightarrow> Str [] | Some v \<Rightarrow> v) of
       NonStr \<Rightarrow> OtherError
     | Str s \<Rightarrow>
        (let msg = strip s in
         if msg = [] then ValueError ''Message cannot be empty''
         else (case k of
                 None \<Rightarrow> Parsed \<lparr>message = msg, k_context = None\<rparr>
               | Some KBad \<Rightarrow> ValueError ''k_context must be a positive integer''
               | Some KOverflow \<Rightarrow> OtherError
               | Some (KInt i) \<Rightarrow>
                   if i \<le> 0 then ValueError ''k_context must be a positive integer''
                   else Parsed \<lparr>message = msg, k_context = Some i\<rparr>)))"

record ChatResponse =
  question :: string
  response :: string
  context_provided_to_llm :: string
  sources :: "DocumentSource list"
  mode :: ChatMode
  error :: "string option"

datatype http_response =
    JsonOk ChatResponse                    \<comment> \<open>status 200\<close>
  | JsonError nat string "string option"   \<comment> \<open>status, \<open>error\<close>, \<open>details\<close>\<close>

section \<open>services/rag\_service.py\<close>

record RAGService =
  embedding_model :: "embedder option"
  vector_db :: "chroma option"
  llm :: "llm_handle option"
  is_ready :: bool

definition RAGService_new :: RAGService where
  "RAGService_new = \<lparr>embedding_model = None, vector_db = None, llm = None, is_ready = False\<rparr>"

text \<open>
  A method returns its result, the service after it and the events it caused. A
  \<open>try\<close> block is a case distinction on what each call of a collaborator answers; the
  \<open>Inl\<close> branch is the \<open>except Exception\<close> handler.
\<close>

definition initialize_embedding_model ::
  "env \<Rightarrow> RAGService \<Rightarrow> (bool \<times> string option) \<times> RAGService \<times> event list" where
  "initialize_embedding_model e self =
    (let failed = (\<lambda>x evs.
           ((False, Some (''Embedding model initialization failed: '' @ exc_str x)),
            self\<lparr>embedding_model := None\<rparr>,
            evs @ [Log ERROR (''Error initializing embedding model: '' @ exc_str x)]))
     in case HuggingFaceEmbeddings_new e of
          Inl x \<Rightarrow> failed x []
        | Inr m \<Rightarrow>
           (case embed_query m ''Test embedding'' of
              Inl x \<Rightarrow> failed x [EmbedQuery ''Test embedding'']
            | Inr v \<Rightarrow>
               ((True, None), self\<lparr>embedding_model := Some m\<rparr>, [EmbedQuery ''Test embedding''])))"

definition initialize_llm ::
  "env \<Rightarrow> RAGService \<Rightarrow> (bool \<times> string option) \<times> RAGService \<times> event list" where
  "initialize_llm e self =
    (let failed = (\<lambda>x evs.
           ((False, Some (''LLM initialization failed: '' @ exc_str x)),
            self\<lparr>llm := None\<rparr>,
            evs @ [Log ERROR (''Error initializing LLM: '' @ exc_str x)]))
     in if falsy (GROQ_API_KEY e) then ((False, Some ''GROQ_API_KEY not configured''), self, [])
        else case ChatGroq_new e of
          Inl x \<Rightarrow> failed x []
        | Inr h \<Rightarrow>
           (case invoke h ''Hello'' of
              Inl x \<Rightarrow> failed x [LLMInvoke ''Hello'']
            | Inr r \<Rightarrow> ((True, None), self\<lparr>llm := Some h\<rparr>, [LLMInvoke ''Hello''])))"

definition check_vector_store_rebuild ::
  "persist_dir \<Rightarrow> RAGService \<Rightarrow> Document list \<Rightarrow> bool \<times> RAGService \<times> event list" where
  \<comment> \<open>\<open>_check_vector_store_rebuild\<close>; it reads the directory and leaves it as it is\<close>
  "check_vector_store_rebuild d self chunks =
    (let failed = (\<lambda>x evs.
           (True, self, evs @ [Log WARNING (''Error checking vector store: '' @ exc_str x)]))
     in case d of
          Missing \<Rightarrow> (True, self, [])         \<comment> \<open>\<open>if not os.path.exists(...)\<close>\<close>
        | Unreadable x \<Rightarrow> failed x []
        | Empty \<Rightarrow> (True, self, [])           \<comment> \<open>\<open>if not any(os.scandir(...))\<close>\<close>
        | Holding opened \<Rightarrow>
           (case opened of
              Inl x \<Rightarrow> failed x [ChromaOpen]
            | Inr temp_db \<Rightarrow>
               (case collection_count temp_db of
                  Inl x \<Rightarrow> failed x [ChromaOpen, ChromaCount]
                | Inr existing_count \<Rightarrow>
                   let current_count = length chunks in
                   if existing_count \<noteq> current_count then (True, self, [ChromaOpen, ChromaCount])
                   else (False, self\<lparr>vector_db := Some temp_db\<rparr>, [ChromaOpen, ChromaCount]))))"

fun clean_attempts :: "env \<Rightarrow> persist_dir \<Rightarrow> nat list \<Rightarrow> persist_dir \<times> event list" where
  \<comment> \<open>the \<open>for attempt in range(Config.MAX_REBUILD_ATTEMPTS)\<close> loop over the attempts left;
      an attempt that raises is taken to leave the directory as it was\<close>
  "clean_attempts e d [] = (d, [])"
| "clean_attempts e d (attempt # rest) =
    (case erase_attempt e attempt of
       None \<Rightarrow> (Empty, [EraseAttempt attempt])
     | Some (PermissionError m) \<Rightarrow>
         (let (d', evs) = clean_attempts e d rest
          in (d',
              [EraseAttempt attempt,
               Log WARNING (''Attempt '' @ str_nat (attempt + 1) @ '' to clean directory failed: '' @ m)]
              @ (if attempt < MAX_REBUILD_ATTEMPTS - 1 then [Sleep]
                 else [Log ERROR ''Failed to clean vector store directory''])
              @ evs))
     | Some (Exception m) \<Rightarrow>
         (d, [EraseAttempt attempt, Log ERROR (''Unexpected error cleaning directory: '' @ m)]))"

definition clean_vector_store_directory :: "env \<Rightarrow> persist_dir \<Rightarrow> persist_dir \<times> event list" where
  \<comment> \<open>\<open>_clean_vector_store_directory\<close>; it assigns nothing and every raise inside is caught\<close>
  "clean_vector_store_directory e d =
    (case d of
       Missing \<Rightarrow> (d, [])
     | _ \<Rightarrow> clean_attempts e d [0 ..< MAX_REBUILD_ATTEMPTS])"

definition rebuild_vector_store ::
  "env \<Rightarrow> persist_dir \<Rightarrow> RAGService \<Rightarrow> Document list \<Rightarrow>
   bool \<times> RAGService \<times> persist_dir \<times> event list" where
  \<comment> \<open>\<open>_rebuild_vector_store\<close>\<close>
  "rebuild_vector_store e d self chunks =
    (let self1 = (if vector_db self \<noteq> None then self\<lparr>vector_db := None\<rparr> else self);
         (d1, evs1) = clean_vector_store_directory e d;
         evs = evs1 @ [ChromaFromDocuments (length chunks)];
         (built, d2) = Chroma_from_documents e d1 chunks
     in case built of
          Inl x \<Rightarrow>
            (False, self1, d2, evs @ [Log ERROR (''Error rebuilding vector store: '' @ exc_str x)])
        | Inr db \<Rightarrow> (True, self1\<lparr>vector_db := Some db\<rparr>, d2, evs))"

definition initialize_vector_store ::
  "env \<Rightarrow> persist_dir \<Rightarrow> RAGService \<Rightarrow> Document list \<Rightarrow>
   (bool \<times> string option) \<times> RAGService \<times> persist_dir \<times> event list" where
  "initialize_vector_store e d self chunks =
    (if embedding_model self = None then
       ((False, Some ''Embedding model not initialized''), self, d, [])
     else if chunks = [] then ((False, Some ''No chunks provided for vector store''), self, d, [])
     else case persist_makedirs e of
       Some x \<Rightarrow>
         ((False, Some (''Vector store initialization failed: '' @ exc_str x)),
          self\<lparr>vector_db := None\<rparr>, d,
          [Log ERROR (''Error initializing vector store: '' @ exc_str x)])
     | None \<Rightarrow>
        (let d0 = (case d of Missing \<Rightarrow> Empty | _ \<Rightarrow> d);
             (needs_rebuild, self1, evs1) = check_vector_store_rebuild d0 self chunks
         in if needs_rebuild then
              (let (success, self2, d2, evs2) = rebuild_vector_store e d0 self1 chunks
               in if \<not> success then
                    ((False, Some ''Failed to rebuild vector store''), self2, d2, evs1 @ evs2)
                  else ((True, None), self2, d2, evs1 @ evs2))
            else ((True, None), self1, d0, evs1)))"

definition round4 :: "real \<Rightarrow> real" where
  \<comment> \<open>\<open>float(f"{score:.4f}")\<close>: the argument is the exact value of the double \<open>score\<close>, the
      result the decimal that the formatting gives (the nearest multiple of \<open>0.0001\<close>, a tie to
      the even one), of which the code keeps the nearest double. NaN and the infinities have
      no counterpart.\<close>
  "round4 x =
    (let y = x * 10000; f = \<lfloor>y\<rfloor>; d = y - of_int f
     in of_int (if d < 1/2 then f else if 1/2 < d then f + 1 else if even f then f else f + 1)
        / 10000)"

fun join :: "string \<Rightarrow> string list \<Rightarrow> string" where
  \<comment> \<open>\<open>sep.join(xs)\<close>\<close>
  "join sep [] = []"
| "join sep [x] = x"
| "join sep (x # y # ys) = x @ sep @ join sep (y # ys)"

definition make_source :: "Document \<times> real \<Rightarrow> DocumentSource" where
  "make_source ds =
    (case ds of (doc, s) \<Rightarrow>
      \<lparr>source_file = (case meta_source_file doc of None \<Rightarrow> ''Unknown'' | Some f \<Rightarrow> f),
       page = (case meta_page doc of None \<Rightarrow> ''N/A'' | Some p \<Rightarrow> p),
       score = round4 s\<rparr>)"

definition search_similar_documents ::
  "env \<Rightarrow> RAGService \<Rightarrow> string \<Rightarrow> int option \<Rightarrow>
   (string \<times> DocumentSource list) \<times> RAGService \<times> event list" where
  "search_similar_documents e self query k0 =
    (case vector_db self of
       None \<Rightarrow> (([], []), self, [Log ERROR ''Vector database not initialized''])
     | Some db \<Rightarrow>
        (let k = (case k0 of None \<Rightarrow> DEFAULT_K_RETRIEVAL e | Some k \<Rightarrow> k);
             (is_valid, error_msg) = validate_input (Str query) 5000
         in if \<not> is_valid then
              (([], []), self, [Log WARNING (''Invalid search query: '' @ error_msg)])
            else case similarity_search_with_score db query k of
              Inl x \<Rightarrow>
                (([], []), self,
                 [SimilaritySearch query k,
                  Log ERROR (''Error searching similar documents: '' @ exc_str x)])
            | Inr similar_docs \<Rightarrow>
                if similar_docs = [] then (([], []), self, [SimilaritySearch query k])
                else
                  ((join ''\<newline>\<newline>---\<newline>\<newline>'' (map (\<lambda>(doc, s). page_content doc) similar_docs),
                    map make_source similar_docs),
                   self, [SimilaritySearch query k])))"

definition create_rag_prompt :: "string \<Rightarrow> string \<Rightarrow> string" where
  \<comment> \<open>\<open>_create_rag_prompt\<close>\<close>
  \<open>create_rag_prompt query context = join ''\<newline>''
    [''You are a helpful assistant with access to specific document context. Follow these guidelines:'',
     '''',
     ''1. **PRIMARY PRIORITY**: Use the information from the provided CONTEXT below to answer the question.'',
     ''2. **SECONDARY PRIORITY**: If the context doesn't contain sufficient information, you may supplement with your general knowledge, but clearly indicate when you're doing so.'',
     ''3. **TRANSPARENCY**: Always specify your sources:'',
     ''   - For context-based info: "According to the provided documents..." or "Based on the context..."'',
     ''   - For general knowledge: "Based on general knowledge..." or "Generally speaking..."'',
     ''4. **ACCURACY**: Be factual and helpful. Don't make up specific details not found in either source.'',
     ''5. **COMPLETENESS**: Provide comprehensive answers when possible.'',
     '''',
     ''CONTEXT FROM DOCUMENTS:'',
     ''--- start of context ---'',
     context,
     ''--- end of context ---'',
     '''',
     ''QUESTION:'',
     query,
     '''',
     ''HELPFUL RESPONSE (prioritizing context, supplementing with general knowledge when needed):'']\<close>

definition generate_response ::
  "RAGService \<Rightarrow> string \<Rightarrow> string \<Rightarrow> (string \<times> ChatMode) \<times> RAGService \<times> event list" where
  "generate_response self query context =
    (case llm self of
       None \<Rightarrow> ((''LLM not available'', UNAVAILABLE), self, [])
     | Some h \<Rightarrow>
        (let (is_valid, error_msg) = validate_input (Str query) 5000
         in if \<not> is_valid then ((''Invalid input: '' @ error_msg, UNAVAILABLE), self, [])
            else
              (let (prompt, mode) =
                     (if context \<noteq> [] then (create_rag_prompt query context, RAG)
                      else (query, LLM_ONLY))
               in case invoke h prompt of
                    Inl x \<Rightarrow>
                      ((''Sorry, an error occurred while generating the response'', UNAVAILABLE),
                       self,
                       [LLMInvoke prompt, Log ERROR (''Error generating response: '' @ exc_str x)])
                  | Inr answer \<Rightarrow> ((strip answer, mode), self, [LLMInvoke prompt]))))"

definition is_available :: "RAGService \<Rightarrow> bool" where
  "is_available self = (llm self \<noteq> None)"

definition is_rag_ready :: "RAGService \<Rightarrow> bool" where
  "is_rag_ready self = (llm self \<noteq> None \<and> vector_db self \<noteq> None \<and> embedding_model self \<noteq> None)"

section \<open>services/document\_service.py\<close>

record DocumentService =
  loaded_documents :: "Document list"
  chunks :: "Document list"
  loaded_filenames :: "string list"

definition DocumentService_new :: DocumentService where
  "DocumentService_new = \<lparr>loaded_documents = [], chunks = [], loaded_filenames = []\<rparr>"

definition load_documents ::
  "env \<Rightarrow> DocumentService \<Rightarrow> (bool \<times> string option) \<times> DocumentService \<times> event list" where
  \<comment> \<open>reading the files is the collaborator \<open>corpus_load\<close>; the decision on its result is the code's\<close>
  "load_documents e self =
    (case corpus_load e of
       Inl x \<Rightarrow>
         ((False, Some (''Document loading failed: '' @ exc_str x)),
          self\<lparr>loaded_documents := [], loaded_filenames := []\<rparr>,
          [Log ERROR (''Error loading documents: '' @ exc_str x)])
     | Inr (docs, names) \<Rightarrow>
         (let self1 = self\<lparr>loaded_documents := docs, loaded_filenames := names\<rparr>
          in if docs = [] then ((False, Some ''No valid documents found to load''), self1, [])
             else ((True, None), self1, [])))"

definition create_chunks ::
  "env \<Rightarrow> DocumentService \<Rightarrow> (bool \<times> string option) \<times> DocumentService \<times> event list" where
  "create_chunks e self =
    (if loaded_documents self = [] then ((False, Some ''No documents loaded to chunk''), self, [])
     else case split_documents e (loaded_documents self) of
       Inl x \<Rightarrow>
         ((False, Some (''Chunk creation failed: '' @ exc_str x)), self,
          [Log ERROR (''Error creating chunks: '' @ exc_str x)])
     | Inr cs \<Rightarrow>
         (let self1 = self\<lparr>chunks := cs\<rparr>
          in if cs = [] then ((False, Some ''No chunks created from documents''), self1, [])
             else ((True, None), self1, [])))"

definition get_chunks :: "DocumentService \<Rightarrow> Document list" where
  "get_chunks self = chunks self"

section \<open>app.py\<close>

record globals =
  document_service :: "DocumentService option"
  rag_service :: "RAGService option"
  system_ready :: bool
  initialization_error :: "string option"

definition initial_globals :: globals where
  \<comment> \<open>the module-level assignments\<close>
  "initial_globals =
    \<lparr>document_service = None, rag_service = None, system_ready = False, initialization_error = None\<rparr>"

definition str_opt :: "string option \<Rightarrow> string" where
  \<comment> \<open>an optional string inside an f-string\<close>
  "str_opt s = (case s of None \<Rightarrow> ''None'' | Some t \<Rightarrow> t)"

text \<open>
  Every call inside the \<open>try\<close> block of \<open>initialize_system\<close> catches its own exceptions and
  returns a pair, so the outer \<open>except Exception\<close> handler has no path leading to it here.
\<close>

definition initialize_system ::
  "env \<Rightarrow> persist_dir \<Rightarrow> globals \<Rightarrow> bool \<times> globals \<times> persist_dir \<times> event list" where
  "initialize_system e d g =
    (case Config_validate e of
       Some config_error \<Rightarrow>
         (False, g\<lparr>initialization_error := Some config_error\<rparr>, d,
          [Log ERROR (''Configuration validation failed: '' @ config_error)])
     | None \<Rightarrow>
        (let ((llm_success, llm_error), rs1, evs1) = initialize_llm e RAGService_new;
             g1 = g\<lparr>document_service := Some DocumentService_new, rag_service := Some rs1\<rparr>
         in if \<not> llm_success then
              (let msg = ''LLM initialization failed: '' @ str_opt llm_error
               in (False, g1\<lparr>initialization_error := Some msg\<rparr>, d, evs1 @ [Log ERROR msg]))
            else
        (let ((doc_success, doc_error), ds2, evs2) = load_documents e DocumentService_new;
             g2 = g1\<lparr>document_service := Some ds2\<rparr>
         in if \<not> doc_success then
              (True, g2\<lparr>system_ready := True\<rparr>, d,
               evs1 @ evs2 @ [Log WARNING (''Document loading failed: '' @ str_opt doc_error)])
            else
        (let ((chunk_success, chunk_error), ds3, evs3) = create_chunks e ds2;
             g3 = g2\<lparr>document_service := Some ds3\<rparr>
         in if \<not> chunk_success then
              (True, g3\<lparr>system_ready := True\<rparr>, d,
               evs1 @ evs2 @ evs3 @ [Log WARNING (''Chunk creation failed: '' @ str_opt chunk_error)])
            else
        (let ((embed_success, embed_error), rs4, evs4) = initialize_embedding_model e rs1;
             g4 = g3\<lparr>rag_service := Some rs4\<rparr>
         in if \<not> embed_success then
              (True, g4\<lparr>system_ready := True\<rparr>, d,
               evs1 @ evs2 @ evs3 @ evs4 @
               [Log WARNING (''Embedding model failed: '' @ str_opt embed_error)])
            else
        (let ((vector_success, vector_error), rs5, d5, evs5) =
               initialize_vector_store e d rs4 (get_chunks ds3);
             g5 = g4\<lparr>rag_service := Some rs5\<rparr>
         in if \<not> vector_success then
              (True, g5\<lparr>system_ready := True\<rparr>, d5,
               evs1 @ evs2 @ evs3 @ evs4 @ evs5 @
               [Log WARNING (''Vector store failed: '' @ str_opt vector_error)])
            else (True, g5\<lparr>system_ready := True\<rparr>, d5,
                  evs1 @ evs2 @ evs3 @ evs4 @ evs5)))))))"

definition api_chat :: "env \<Rightarrow> globals \<Rightarrow> http_request \<Rightarrow> http_response \<times> globals \<times> event list" where
  "api_chat e g request =
    (case request of
       NotJson \<Rightarrow> (JsonError 400 ''Request must be JSON'' None, g, [])
     | _ \<Rightarrow>
        (case (if system_ready g then rag_service g else None) of
           None \<Rightarrow>
             (JsonError 503 ''System unavailable''
                (Some (if falsy (initialization_error g) then ''System not ready''
                       else str_opt (initialization_error g))), g, [])
         | Some rs \<Rightarrow>
            if \<not> is_available rs then
              (JsonError 503 ''System unavailable''
                 (Some (if falsy (initialization_error g) then ''System not ready''
                        else str_opt (initialization_error g))), g, [])
            else
            (case (case request of Json m k \<Rightarrow> from_dict m k | _ \<Rightarrow> OtherError) of
               ValueError msg \<Rightarrow> (JsonError 400 msg None, g, [])
             | OtherError \<Rightarrow>   \<comment> \<open>the outer handler; the text of the exception is not kept\<close>
                 (JsonError 500 ''Chat processing failed'' (Some ''Internal server error''), g,
                  [Log ERROR ''Error in chat endpoint''])
             | Parsed chat_request \<Rightarrow>
                (let k_context =
                       (case k_context chat_request of
                          None \<Rightarrow> DEFAULT_K_RETRIEVAL e
                        | Some i \<Rightarrow> if i = 0 then DEFAULT_K_RETRIEVAL e else i);
                     ((response_text, mode, srcs, context_info), rs', evs) =
                       (if is_rag_ready rs then
                          (let ((context, srcs), rs1, evs1) =
                                 search_similar_documents e rs (message chat_request) (Some k_context)
                           in if context \<noteq> [] then
                                (let ((response_text, mode), rs2, evs2) =
                                       generate_response rs1 (message chat_request) context
                                 in ((response_text, mode, srcs,
                                      ''Used '' @ str_nat (length srcs) @ '' document sources''),
                                     rs2, evs1 @ evs2))
                              else
                                (let ((response_text, mode), rs2, evs2) =
                                       generate_response rs1 (message chat_request) []
                                 in ((response_text, mode, [],
                                      ''No relevant documents found, using LLM-only mode''),
                                     rs2, evs1 @ evs2)))
                        else
                          (let ((response_text, mode), rs2, evs2) =
                                 generate_response rs (message chat_request) []
                           in ((response_text, mode, [],
                                ''LLM-only mode (no documents available)''), rs2, evs2)))
                 in (JsonOk \<lparr>question = message chat_request, response = response_text,
                             context_provided_to_llm = context_info, sources = srcs,
                             mode = mode, error = None\<rparr>,
                     g\<lparr>rag_service := Some rs'\<rparr>, evs)))))"

section \<open>Example collaborators\<close>

text \<open>Concrete components and environments, used to run the definitions on inputs.\<close>

definition llm_echo :: llm_handle where
  \<comment> \<open>a generator that answers every prompt\<close>
  "llm_echo = \<lparr>invoke = (\<lambda>prompt. Inr (''  answer to: '' @ prompt @ '' ''))\<rparr>"

definition llm_down :: llm_handle where
  \<comment> \<open>a generator whose every call raises\<close>
  "llm_down = \<lparr>invoke = (\<lambda>prompt. Inl (Exception ''connection reset''))\<rparr>"

definition embedder_ok :: embedder where
  "embedder_ok = \<lparr>embed_query = (\<lambda>t. Inr [0, 1])\<rparr>"

definition doc_a :: Document where
  "doc_a = \<lparr>page_content = ''alpha'', meta_source_file = Some ''a.pdf'', meta_page = Some ''1''\<rparr>"

definition doc_b :: Document where
  "doc_b = \<lparr>page_content = ''beta'', meta_source_file = None, meta_page = None\<rparr>"

definition db_none :: chroma where
  \<comment> \<open>an index in which no search finds anything\<close>
  "db_none = \<lparr>similarity_search_with_score = (\<lambda>q k. Inr []), collection_count = Inr 2\<rparr>"

definition db_two :: chroma where
  \<comment> \<open>an index of two chunks that answers every search with the nearest \<open>k\<close> of them, the
      smaller distance first\<close>
  "db_two = \<lparr>similarity_search_with_score =
                (\<lambda>q k. Inr (take (nat k) [(doc_a, 0.21234), (doc_b, 0.9)])),
              collection_count = Inr 2\<rparr>"

definition db_old :: chroma where
  \<comment> \<open>an index persisted from an earlier corpus of five chunks\<close>
  "db_old = \<lparr>similarity_search_with_score = (\<lambda>q k. Inr []), collection_count = Inr 5\<rparr>"

definition env_locked :: env where
  \<comment> \<open>a persist directory whose items another process keeps locked at every attempt,
      while a new index can still be built\<close>
  "env_locked =
    \<lparr>GROQ_API_KEY = Some ''key'', DEFAULT_K_RETRIEVAL = 5,
     pdf_folder_exists = True, pdf_folder_makedirs = None,
     ChatGroq_new = Inr llm_echo, HuggingFaceEmbeddings_new = Inr embedder_ok,
     corpus_load = Inr ([doc_a, doc_b], [''a.pdf'']),
     split_documents = (\<lambda>ds. Inr ds),
     persist_makedirs = None,
     erase_attempt = (\<lambda>n. Some (PermissionError ''locked'')),
     Chroma_from_documents = (\<lambda>d ds. (Inr db_two, Holding (Inr db_two)))\<rparr>"

definition service_full :: "llm_handle \<Rightarrow> chroma \<Rightarrow> RAGService" where
  \<comment> \<open>a service with all three components\<close>
  "service_full h db =
    \<lparr>embedding_model = Some embedder_ok, vector_db = Some db, llm = Some h, is_ready = False\<rparr>"

definition globals_ready :: "RAGService \<Rightarrow> globals" where
  "globals_ready rs =
    \<lparr>document_service = Some DocumentService_new, rag_service = Some rs,
     system_ready = True, initialization_error = None\<rparr>"

definition env_llm_down :: env where
  \<comment> \<open>the generator can be constructed, but its test call raises\<close>
  "env_llm_down = env_locked\<lparr>ChatGroq_new := Inr llm_down\<rparr>"

definition env_no_embedder :: env where
  \<comment> \<open>the generator works, the embedding model cannot be loaded\<close>
  "env_no_embedder = env_locked\<lparr>HuggingFaceEmbeddings_new := Inl (Exception ''no model'')\<rparr>"

definition env_no_pdf_folder :: env where
  \<comment> \<open>the key is set and the generator works, but the PDF folder is missing and cannot be
      created\<close>
  "env_no_pdf_folder =
     env_locked\<lparr>pdf_folder_exists := False,
                pdf_folder_makedirs := Some (PermissionError ''read-only file system'')\<rparr>"

definition env_locked_no_build :: env where
  \<comment> \<open>the directory stays locked and building the new index raises as well\<close>
  "env_locked_no_build =
     env_locked\<lparr>Chroma_from_documents := (\<lambda>d ds. (Inl (Exception ''database is locked''), d))\<rparr>"

definition env_builds :: env where
  \<comment> \<open>the directory can be erased and the new index is built\<close>
  "env_builds = env_locked\<lparr>erase_attempt := (\<lambda>n. None)\<rparr>"

definition env_build_fails :: env where
  \<comment> \<open>the directory can be erased, but building the new index raises and writes nothing\<close>
  "env_build_fails =
     env_locked\<lparr>erase_attempt := (\<lambda>n. None),
                Chroma_from_documents := (\<lambda>d ds. (Inl (Exception ''embedding failed''), d))\<rparr>"

definition service_llm_only :: "llm_handle \<Rightarrow> RAGService" where
  \<comment> \<open>a service with a generator and nothing else\<close>
  "service_llm_only h = RAGService_new\<lparr>llm := Some h\<rparr>"

section \<open>The matcher finds exactly the matches\<close>

inductive_cases m_ZeroE: "matches Zero w"
inductive_cases m_OneE: "matches One w"
inductive_cases m_AtomE: "matches (Atom a) w"
inductive_cases m_AltE: "matches (Alt r s) w"
inductive_cases m_SeqE: "matches (Seq r s) w"

lemma nullable_matches: "nullable r \<longleftrightarrow> matches r []"
proof (induction r)
  case Zero show ?case by (auto elim: m_ZeroE)
next
  case One show ?case by (auto intro: matches.intros)
next
  case (Atom a) show ?case by (auto elim: m_AtomE)
next
  case (Alt r s) then show ?case by (auto intro: matches.intros elim: m_AltE)
next
  case (Seq r s)
  show ?case
  proof
    assume "nullable (Seq r s)"
    then have "matches r []" "matches s []" using Seq by auto
    then have "matches (Seq r s) ([] @ [])" by (rule m_Seq)
    then show "matches (Seq r s) []" by simp
  next
    assume "matches (Seq r s) []"
    then show "nullable (Seq r s)" using Seq by (auto elim!: m_SeqE)
  qed
next
  case (Star r) show ?case by (auto intro: matches.intros)
qed

lemma star_cons:
  "matches (Star r) x \<Longrightarrow> x = c # w \<Longrightarrow>
   \<exists>u v. w = u @ v \<and> matches r (c # u) \<and> matches (Star r) v"
proof (induction "Star r" x arbitrary: w rule: matches.induct)
  case m_Star0 then show ?case by simp
next
  case (m_StarS u v)
  show ?case
  proof (cases u)
    case Nil
    with m_StarS show ?thesis by simp
  next
    case (Cons a u')
    with m_StarS.prems have "a = c" "w = u' @ v" by auto
    with m_StarS.hyps Cons show ?thesis by blast
  qed
qed

lemma deriv_matches: "matches (deriv c r) w \<longleftrightarrow> matches r (c # w)"
proof (induction r arbitrary: w)
  case Zero show ?case by (auto elim: m_ZeroE)
next
  case One show ?case by (auto elim: m_ZeroE m_OneE)
next
  case (Atom a) show ?case
    by (auto elim: m_ZeroE m_OneE m_AtomE intro: matches.intros)
next
  case (Alt r s) then show ?case by (auto intro: matches.intros elim!: m_AltE)
next
  case (Seq r s)
  show ?case
  proof
    assume L: "matches (deriv c (Seq r s)) w"
    have A: "matches (Seq r s) (c # w)" if "matches (Seq (deriv c r) s) w"
    proof -
      from that obtain u v where "w = u @ v" "matches (deriv c r) u" "matches s v"
        by (auto elim: m_SeqE)
      then have "matches r (c # u)" "matches s v" "c # w = (c # u) @ v" using Seq by auto
      then show ?thesis using m_Seq by metis
    qed
    have B: "matches (Seq r s) (c # w)" if "nullable r" "matches (deriv c s) w"
    proof -
      from that have "matches r []" "matches s (c # w)" using Seq nullable_matches by auto
      then have "matches (Seq r s) ([] @ c # w)" by (rule m_Seq)
      then show ?thesis by simp
    qed
    from L A B show "matches (Seq r s) (c # w)"
      by (auto split: if_splits elim!: m_AltE)
  next
    assume "matches (Seq r s) (c # w)"
    then obtain u v where uv: "c # w = u @ v" "matches r u" "matches s v"
      by (auto elim: m_SeqE)
    show "matches (deriv c (Seq r s)) w"
    proof (cases u)
      case Nil
      with uv have "nullable r" "matches (deriv c s) w" using Seq nullable_matches by auto
      then show ?thesis by (auto intro: matches.intros)
    next
      case (Cons a u')
      with uv have "matches (deriv c r) u'" "w = u' @ v" using Seq by auto
      with uv have "matches (Seq (deriv c r) s) w" using m_Seq by metis
      then show ?thesis by (auto intro: matches.intros)
    qed
  qed
next
  case (Star r)
  show ?case
  proof
    assume "matches (deriv c (Star r)) w"
    then obtain u v where "w = u @ v" "matches (deriv c r) u" "matches (Star r) v"
      by (auto elim: m_SeqE)
    then have "matches r (c # u)" "matches (Star r) v" "c # w = (c # u) @ v" using Star by auto
    then show "matches (Star r) (c # w)" using m_StarS by metis
  next
    assume "matches (Star r) (c # w)"
    then obtain u v where "w = u @ v" "matches r (c # u)" "matches (Star r) v"
      using star_cons by blast
    then have "matches (deriv c r) u" "matches (Star r) v" "w = u @ v" using Star by auto
    then have "matches (Seq (deriv c r) (Star r)) w" using m_Seq by metis
    then show "matches (deriv c (Star r)) w" by simp
  qed
qed

lemma match_prefix_iff: "match_prefix r s \<longleftrightarrow> (\<exists>p q. s = p @ q \<and> matches r p)"
proof (induction s arbitrary: r)
  case Nil show ?case by (simp add: nullable_matches)
next
  case (Cons c cs)
  show ?case
  proof
    assume "match_prefix r (c # cs)"
    then consider "nullable r" | "match_prefix (deriv c r) cs" by auto
    then show "\<exists>p q. c # cs = p @ q \<and> matches r p"
    proof cases
      case 1 then have "matches r []" by (simp add: nullable_matches)
      then show ?thesis by (metis append_Nil)
    next
      case 2
      then obtain p q where "cs = p @ q" "matches (deriv c r) p" using Cons by blast
      then have "c # cs = (c # p) @ q" "matches r (c # p)" by (auto simp: deriv_matches)
      then show ?thesis by blast
    qed
  next
    assume "\<exists>p q. c # cs = p @ q \<and> matches r p"
    then obtain p q where pq: "c # cs = p @ q" "matches r p" by blast
    show "match_prefix r (c # cs)"
    proof (cases p)
      case Nil with pq have "nullable r" by (simp add: nullable_matches)
      then show ?thesis by simp
    next
      case (Cons a p')
      with pq have "cs = p' @ q" "matches (deriv c r) p'" by (auto simp: deriv_matches)
      then have "match_prefix (deriv c r) cs" using Cons.IH by blast
      then show ?thesis by simp
    qed
  qed
qed

lemma re_search_iff: "re_search r s \<longleftrightarrow> (\<exists>a p b. s = a @ p @ b \<and> matches r p)"
proof (induction s)
  case Nil show ?case by (simp add: nullable_matches)
next
  case (Cons c cs)
  show ?case
  proof
    assume "re_search r (c # cs)"
    then consider "match_prefix r (c # cs)" | "re_search r cs" by auto
    then show "\<exists>a p b. c # cs = a @ p @ b \<and> matches r p"
    proof cases
      case 1
      then obtain p q where "c # cs = p @ q" "matches r p" using match_prefix_iff by blast
      then have "c # cs = [] @ p @ q" by simp
      with \<open>matches r p\<close> show ?thesis by blast
    next
      case 2
      then obtain a p b where "cs = a @ p @ b" "matches r p" using Cons by blast
      then have "c # cs = (c # a) @ p @ b" by simp
      with \<open>matches r p\<close> show ?thesis by blast
    qed
  next
    assume "\<exists>a p b. c # cs = a @ p @ b \<and> matches r p"
    then obtain a p b where apb: "c # cs = a @ p @ b" "matches r p" by blast
    show "re_search r (c # cs)"
    proof (cases a)
      case Nil
      with apb have "match_prefix r (c # cs)" using match_prefix_iff by auto
      then show ?thesis by simp
    next
      case (Cons x a')
      with apb have "cs = a' @ p @ b" by simp
      with apb have "re_search r cs" using Cons.IH by blast
      then show ?thesis by simp
    qed
  qed
qed

section \<open>chunk\_text\<close>

lemma chunk_loop_no_return:
  assumes "chunk_loop t cs ov start acc = Some r"
  shows "\<not> (0 < ov \<and> start < int (length t))"
proof (rule chunk_loop.raw_induct
    [where P = "\<lambda>t cs ov start acc r. \<not> (0 < ov \<and> start < int (length t))", OF _ assms])
  fix f :: "string \<Rightarrow> int \<Rightarrow> int \<Rightarrow> int \<Rightarrow> string list \<Rightarrow> string list option"
  fix t cs ov start acc and r :: "string list"
  assume IH: "\<And>t cs ov start acc y.
    f t cs ov start acc = Some y \<Longrightarrow> \<not> (0 < ov \<and> start < int (length t))"
  assume R: "(if start < int (length t)
      then let end = min (start + cs) (int (length t));
               chunk = py_slice t start end;
               chunks' = if strip chunk \<noteq> [] then acc @ [chunk] else acc;
               start' = if 0 < ov then end - ov else end
           in if end \<le> start' then Some chunks'
              else f t cs ov start' chunks'
      else Some acc) = Some r"
  show "\<not> (0 < ov \<and> start < int (length t))"
  proof
    assume A: "0 < ov \<and> start < int (length t)"
    let ?e = "min (start + cs) (int (length t))"
    from A have lt: "?e - ov < ?e" "?e - ov < int (length t)" by auto
    from R A lt obtain ch where F: "f t cs ov (?e - ov) ch = Some r"
      by (auto simp: Let_def split: if_splits)
    from IH[OF F] A lt show False by simp
  qed
qed

lemma chunk_text_positive_overlap:
  "t \<noteq> [] \<Longrightarrow> 0 < cs \<Longrightarrow> 0 < ov \<Longrightarrow> chunk_text t cs ov = None"
  using chunk_loop_no_return[of t cs ov 0 "[]"]
  by (cases "chunk_text t cs ov") (auto simp: chunk_text_def)

lemma chunk_text_no_overlap:
  "t \<noteq> [] \<Longrightarrow> 0 < cs \<Longrightarrow> ov \<le> 0 \<Longrightarrow>
   chunk_text t cs ov =
     Some (if strip (py_slice t 0 (min cs (int (length t)))) \<noteq> []
           then [py_slice t 0 (min cs (int (length t)))] else [])"
  by (simp add: chunk_text_def chunk_loop.simps[of t cs ov 0] Let_def)

text \<open>
  C9. With its default arguments \<open>chunk_text\<close> does not terminate on the text \<open>hello\<close>:
  after the first window \<open>start\<close> is \<open>end - overlap\<close>, below \<open>end\<close> and below the length
  of the text for ever, so neither exit of the loop is taken. With no overlap the first
  window is followed by \<open>start = end\<close> and the guard against an infinite loop leaves at
  once, so the rest of \<open>hello world\<close> is not covered.
\<close>

theorem chunk_text_defaults_never_return:
  "chunk_text ''hello'' 1000 200 = None \<and> chunk_text ''hello world'' 4 0 = Some [''hell'']"
proof
  show "chunk_text ''hello'' 1000 200 = None"
    by (rule chunk_text_positive_overlap) simp_all
  show "chunk_text ''hello world'' 4 0 = Some [''hell'']"
    by (simp add: chunk_text_no_overlap py_slice_def strip_def is_space_def code_def)
qed

section \<open>sanitize\_filename\<close>

lemma sanitize_filename_chars:
  "sanitize_filename v \<noteq> [] \<and> (\<forall>c \<in> set (sanitize_filename v). filename_char_ok c)"
proof (cases v)
  case NonStr
  show ?thesis unfolding NonStr sanitize_filename_def by code_simp
next
  case (Str f)
  have u: "\<forall>c \<in> set ''unknown_file''. filename_char_ok c" by code_simp
  have "filename_char_ok (CHR ''_'')" by (simp add: filename_char_ok_def)
  then have m: "\<forall>c \<in> set (map (\<lambda>c. if filename_char_ok c then c else CHR ''_'') xs). filename_char_ok c"
    for xs by auto
  show ?thesis unfolding Str sanitize_filename_def using u m
    by (simp add: Let_def del: set_map)
qed

text \<open>
  C10. The name \<open>./.\<close> has no \<open>..\<close> when the first replacement runs; removing the slash
  afterwards brings the two dots together, and the result is \<open>..\<close>.
\<close>

theorem sanitize_filename_dot_slash_dot:
  "sanitize_filename (Str ''./.'') = ''..''"
  by code_simp

section \<open>generate\_response\<close>

lemma validate_hello: "validate_input (Str ''hello'') 5000 = (True, [])"
  by code_simp

text \<open>
  C1. When the generator is present, the query is valid and the call \<open>llm.invoke(prompt)\<close>
  raises, \<open>generate_response\<close> returns the fixed apology with mode \<open>UNAVAILABLE\<close>; it
  returns a value (nothing is raised to the caller), and the service it leaves is the service
  it was given: \<open>llm\<close>, \<open>embedding_model\<close>, \<open>vector_db\<close> and \<open>is_ready\<close> are unchanged. The
  only events are the call itself and the log record of the error.
\<close>

theorem generate_response_generator_exception:
  assumes "llm self = Some h"
    and "fst (validate_input (Str query) 5000)"
    and "invoke h (if context \<noteq> [] then create_rag_prompt query context else query) = Inl x"
  shows "generate_response self query context =
    ((''Sorry, an error occurred while generating the response'', UNAVAILABLE), self,
     [LLMInvoke (if context \<noteq> [] then create_rag_prompt query context else query),
      Log ERROR (''Error generating response: '' @ exc_str x)])"
  using assms
  by (cases "validate_input (Str query) 5000"; cases "context = []")
     (simp_all add: generate_response_def)

theorem generate_response_generator_exception_witness:
  "llm (service_full llm_down db_two) = Some llm_down \<and>
   fst (validate_input (Str ''hello'') 5000) \<and>
   invoke llm_down ''hello'' = Inl (Exception ''connection reset'') \<and>
   generate_response (service_full llm_down db_two) ''hello'' [] =
    ((''Sorry, an error occurred while generating the response'', UNAVAILABLE),
     service_full llm_down db_two,
     [LLMInvoke ''hello'', Log ERROR ''Error generating response: connection reset''])"
proof -
  have l: "llm (service_full llm_down db_two) = Some llm_down"
    by (simp add: service_full_def)
  have v: "fst (validate_input (Str ''hello'') 5000)"
    by (simp add: validate_hello)
  have i: "invoke llm_down (if [] \<noteq> ([] :: string) then create_rag_prompt ''hello'' [] else ''hello'')
             = Inl (Exception ''connection reset'')"
    by (simp add: llm_down_def)
  show ?thesis
    using generate_response_generator_exception[OF l v i] l v i by simp
qed

text \<open>
  C2. When the generator handle is \<open>None\<close>, whatever the embedder and the index store are,
  \<open>generate_response\<close> returns the fixed message \<open>LLM not available\<close> with mode
  \<open>UNAVAILABLE\<close>, it returns no sources (its result has none), and it causes no event: no
  component is called. The chat endpoint, with such a service, answers a JSON request with
  the error \<open>System unavailable\<close> (status 503), again with no event and no sources.
\<close>

theorem generator_unavailable:
  assumes "llm self = None"
  shows "generate_response self query context = ((''LLM not available'', UNAVAILABLE), self, []) \<and>
    (rag_service g = Some self \<longrightarrow>
      (\<exists>details. api_chat e g (Json m k) = (JsonError 503 ''System unavailable'' (Some details), g, [])))"
  using assms by (simp add: generate_response_def api_chat_def is_available_def)

theorem generator_unavailable_witness:
  "llm (RAGService_new\<lparr>vector_db := Some db_two, embedding_model := Some embedder_ok\<rparr>) = None \<and>
   generate_response (RAGService_new\<lparr>vector_db := Some db_two, embedding_model := Some embedder_ok\<rparr>)
     ''hello'' [] =
     ((''LLM not available'', UNAVAILABLE),
      RAGService_new\<lparr>vector_db := Some db_two, embedding_model := Some embedder_ok\<rparr>, []) \<and>
   api_chat env_locked
     (globals_ready (RAGService_new\<lparr>vector_db := Some db_two, embedding_model := Some embedder_ok\<rparr>))
     (Json (Some (Str ''hello'')) None) =
     (JsonError 503 ''System unavailable'' (Some ''System not ready''),
      globals_ready (RAGService_new\<lparr>vector_db := Some db_two, embedding_model := Some embedder_ok\<rparr>), [])"
proof -
  let ?rs = "RAGService_new\<lparr>vector_db := Some db_two, embedding_model := Some embedder_ok\<rparr>"
  have l: "llm ?rs = None" by (simp add: RAGService_new_def)
  have r: "rag_service (globals_ready ?rs) = Some ?rs" by (simp add: globals_ready_def)
  from generator_unavailable[OF l, of "''hello''" "[]" "globals_ready ?rs" env_locked "Some (Str ''hello'')" None] r
  obtain details where
    a: "generate_response ?rs ''hello'' [] = ((''LLM not available'', UNAVAILABLE), ?rs, [])" and
    b: "api_chat env_locked (globals_ready ?rs) (Json (Some (Str ''hello'')) None) =
          (JsonError 503 ''System unavailable'' (Some details), globals_ready ?rs, [])"
    by blast
  have "api_chat env_locked (globals_ready ?rs) (Json (Some (Str ''hello'')) None) =
          (JsonError 503 ''System unavailable'' (Some ''System not ready''), globals_ready ?rs, [])"
    by (simp add: api_chat_def globals_ready_def RAGService_new_def is_available_def falsy_def)
  with a l show ?thesis by simp
qed

section \<open>initialize\_system\<close>

lemma initialize_llm_result:
  assumes "initialize_llm e RAGService_new = ((ok, err), rs, evs)"
  shows "(ok \<longleftrightarrow> llm rs \<noteq> None) \<and> (\<not> ok \<longrightarrow> err \<noteq> None)"
  using assms
  by (auto simp: initialize_llm_def RAGService_new_def Let_def split: if_splits sum.splits)

lemma initialize_embedding_model_llm:
  assumes "initialize_embedding_model e rs = (r, rs', evs)"
  shows "llm rs' = llm rs"
  using assms
  by (auto simp: initialize_embedding_model_def Let_def split: sum.splits)

lemma check_vector_store_rebuild_keeps:
  assumes "check_vector_store_rebuild d rs cs = (r, rs', evs)"
  shows "llm rs' = llm rs \<and> embedding_model rs' = embedding_model rs"
  using assms
  by (auto simp: check_vector_store_rebuild_def Let_def split: if_splits sum.splits persist_dir.splits)

lemma rebuild_vector_store_keeps:
  assumes "rebuild_vector_store e d rs cs = (r, rs', d', evs)"
  shows "llm rs' = llm rs \<and> embedding_model rs' = embedding_model rs"
  using assms
  by (auto simp: rebuild_vector_store_def Let_def split: if_splits sum.splits prod.splits)

lemma initialize_vector_store_keeps:
  assumes "initialize_vector_store e d rs cs = (r, rs', d', evs)"
  shows "llm rs' = llm rs \<and> embedding_model rs' = embedding_model rs"
proof -
  let ?d0 = "case d of Missing \<Rightarrow> Empty | _ \<Rightarrow> d"
  obtain n rs1 ev1 where c: "check_vector_store_rebuild ?d0 rs cs = (n, rs1, ev1)"
    by (cases "check_vector_store_rebuild ?d0 rs cs") auto
  obtain s rs2 d2 ev2 where b: "rebuild_vector_store e ?d0 rs1 cs = (s, rs2, d2, ev2)"
    by (cases "rebuild_vector_store e ?d0 rs1 cs") auto
  note 1 = check_vector_store_rebuild_keeps[OF c]
  note 2 = rebuild_vector_store_keeps[OF b]
  show ?thesis
    using assms c b 1 2
    by (auto simp: initialize_vector_store_def Let_def split: if_splits option.splits)
qed

lemma initialize_system_config_error:
  assumes "Config_validate e = Some msg"
  shows "initialize_system e d g =
    (False, g\<lparr>initialization_error := Some msg\<rparr>, d,
     [Log ERROR (''Configuration validation failed: '' @ msg)])"
  using assms by (simp add: initialize_system_def)

lemma initialize_system_llm_failed:
  assumes "Config_validate e = None"
    and "initialize_llm e RAGService_new = ((False, err), rs, evs)"
  shows "initialize_system e d g =
    (False,
     g\<lparr>document_service := Some DocumentService_new, rag_service := Some rs,
       initialization_error := Some (''LLM initialization failed: '' @ str_opt err)\<rparr>,
     d, evs @ [Log ERROR (''LLM initialization failed: '' @ str_opt err)])"
  using assms by (simp add: initialize_system_def Let_def)

lemma initialize_system_llm_ok:
  assumes "Config_validate e = None"
    and "initialize_llm e RAGService_new = ((True, err), rs, evs)"
  shows "\<exists>g' rs' d' evs'. initialize_system e d g = (True, g', d', evs') \<and> system_ready g' \<and>
           rag_service g' = Some rs' \<and> llm rs' = llm rs \<and>
           initialization_error g' = initialization_error g"
proof -
  obtain r2 ds2 ev2 where l: "load_documents e DocumentService_new = (r2, ds2, ev2)"
    by (cases "load_documents e DocumentService_new") auto
  obtain r3 ds3 ev3 where c: "create_chunks e ds2 = (r3, ds3, ev3)"
    by (cases "create_chunks e ds2") auto
  obtain r4 rs4 ev4 where m: "initialize_embedding_model e rs = (r4, rs4, ev4)"
    by (cases "initialize_embedding_model e rs") auto
  obtain r5 rs5 d5 ev5 where
    v: "initialize_vector_store e d rs4 (get_chunks ds3) = (r5, rs5, d5, ev5)"
    by (cases "initialize_vector_store e d rs4 (get_chunks ds3)") auto
  have 4: "llm rs4 = llm rs" using m by (rule initialize_embedding_model_llm)
  have 5: "llm rs5 = llm rs4" using initialize_vector_store_keeps[OF v] by simp
  show ?thesis
    using assms l c m v 4 5
    by (cases r2; cases r3; cases r4; cases r5) (simp add: initialize_system_def Let_def)
qed

text \<open>
  C3, as amended. \<open>initialize_system\<close> is started with \<open>system_ready\<close> false and no generator
  in the service, as the module's initial globals and the reset of \<open>api_reinitialize\<close> have it.
  It reports success exactly when the configuration check passes and the generator is then
  initialised: a failed configuration check and a failed \<open>initialize_llm\<close> are the two fatal
  steps, each retaining its diagnostic in \<open>initialization_error\<close> (for the generator the text
  \<open>LLM initialization failed:\<close> followed by the error of \<open>initialize_llm\<close>). Whatever document
  loading, chunking, the embedding model and the vector store do afterwards changes
  nothing in the result. \<open>system_ready\<close> is set exactly on success, and the service left
  holds a generator exactly on success.
\<close>

theorem initialize_system_usable_iff_config_and_generator:
  assumes "\<not> system_ready g" and "\<forall>rs. rag_service g = Some rs \<longrightarrow> llm rs = None"
  shows
  "let (ok, g', d', evs) = initialize_system e d g;
       ((llm_success, llm_error), rs, evs1) = initialize_llm e RAGService_new
   in (ok \<longleftrightarrow> Config_validate e = None \<and> llm_success) \<and>
      (ok \<longleftrightarrow> (\<exists>rs'. rag_service g' = Some rs' \<and> llm rs' \<noteq> None)) \<and>
      system_ready g' = ok \<and>
      (\<not> ok \<longrightarrow> initialization_error g' \<noteq> None) \<and>
      (\<forall>msg. Config_validate e = Some msg \<longrightarrow> initialization_error g' = Some msg) \<and>
      (Config_validate e = None \<and> \<not> llm_success \<longrightarrow>
         initialization_error g' = Some (''LLM initialization failed: '' @ str_opt llm_error))"
proof -
  obtain ls le rs ev1 where l: "initialize_llm e RAGService_new = ((ls, le), rs, ev1)"
    by (cases "initialize_llm e RAGService_new") auto
  note lr = initialize_llm_result[OF l]
  show ?thesis
  proof (cases "Config_validate e")
    case (Some msg)
    show ?thesis
      using l Some assms by (simp add: initialize_system_config_error[OF Some])
  next
    case None
    show ?thesis
    proof (cases ls)
      case False
      with l have l': "initialize_llm e RAGService_new = ((False, le), rs, ev1)" by simp
      show ?thesis
        using l lr False None assms
        by (simp add: initialize_system_llm_failed[OF None l'])
    next
      case True
      with l have l': "initialize_llm e RAGService_new = ((True, le), rs, ev1)" by simp
      from initialize_system_llm_ok[OF None l', of d g]
      obtain g' rs' d' evs' where
        r: "initialize_system e d g = (True, g', d', evs')" "system_ready g'"
           "rag_service g' = Some rs'" "llm rs' = llm rs"
        by blast
      show ?thesis
        using l lr True None r by simp
    qed
  qed
qed

theorem initialize_system_usable_iff_config_and_generator_witness:
  "\<not> system_ready initial_globals \<and>
   rag_service initial_globals = None \<and>
   Config_validate env_llm_down = None \<and>
   \<not> fst (initialize_system env_llm_down Missing initial_globals) \<and>
   \<not> system_ready (fst (snd (initialize_system env_llm_down Missing initial_globals))) \<and>
   initialization_error (fst (snd (initialize_system env_llm_down Missing initial_globals))) =
     Some ''LLM initialization failed: LLM initialization failed: connection reset'' \<and>
   Config_validate env_no_embedder = None \<and>
   fst (initialize_system env_no_embedder Missing initial_globals) \<and>
   system_ready (fst (snd (initialize_system env_no_embedder Missing initial_globals)))"
proof -
  have g1: "\<not> system_ready initial_globals" by (simp add: initial_globals_def)
  have g2: "\<forall>rs. rag_service initial_globals = Some rs \<longrightarrow> llm rs = None"
    by (simp add: initial_globals_def)
  have c1: "Config_validate env_llm_down = None"
    by (simp add: Config_validate_def env_llm_down_def env_locked_def falsy_def)
  have l1: "initialize_llm env_llm_down RAGService_new =
      ((False, Some ''LLM initialization failed: connection reset''),
       RAGService_new\<lparr>llm := None\<rparr>,
       [LLMInvoke ''Hello'', Log ERROR ''Error initializing LLM: connection reset''])"
    by (simp add: initialize_llm_def env_llm_down_def env_locked_def falsy_def llm_down_def)
  have c2: "Config_validate env_no_embedder = None"
    by (simp add: Config_validate_def env_no_embedder_def env_locked_def falsy_def)
  have l2: "initialize_llm env_no_embedder RAGService_new =
      ((True, None), RAGService_new\<lparr>llm := Some llm_echo\<rparr>, [LLMInvoke ''Hello''])"
    by (simp add: initialize_llm_def env_no_embedder_def env_locked_def falsy_def llm_echo_def)
  have a: "\<not> fst (initialize_system env_llm_down Missing initial_globals) \<and>
     \<not> system_ready (fst (snd (initialize_system env_llm_down Missing initial_globals))) \<and>
     initialization_error (fst (snd (initialize_system env_llm_down Missing initial_globals))) =
       Some ''LLM initialization failed: LLM initialization failed: connection reset''"
    using initialize_system_usable_iff_config_and_generator[OF g1 g2, of env_llm_down Missing] c1 l1
    by (simp add: case_prod_beta str_opt_def)
  have b: "fst (initialize_system env_no_embedder Missing initial_globals) \<and>
     system_ready (fst (snd (initialize_system env_no_embedder Missing initial_globals)))"
    using initialize_system_usable_iff_config_and_generator[OF g1 g2, of env_no_embedder Missing] c2 l2
    by (simp add: case_prod_beta)
  have g3: "rag_service initial_globals = None" by (simp add: initial_globals_def)
  from a b c1 c2 g1 g3 show ?thesis by blast
qed

theorem initialize_system_fails_on_configuration:
  "GROQ_API_KEY env_no_pdf_folder = Some ''key'' \<and>
   initialize_llm env_no_pdf_folder RAGService_new =
     ((True, None), RAGService_new\<lparr>llm := Some llm_echo\<rparr>, [LLMInvoke ''Hello'']) \<and>
   initialize_system env_no_pdf_folder Missing initial_globals =
     (False,
      initial_globals\<lparr>initialization_error :=
        Some ''Cannot create PDF folder: read-only file system''\<rparr>,
      Missing,
      [Log ERROR ''Configuration validation failed: Cannot create PDF folder: read-only file system''])"
  by (simp add: initialize_system_def Config_validate_def initialize_llm_def env_no_pdf_folder_def
      env_locked_def falsy_def llm_echo_def)

section \<open>api\_chat\<close>

lemma strip_answer: "strip ''  answer to: hello '' = ''answer to: hello''"
  by code_simp

lemma from_dict_hello: "from_dict (Some (Str ''hello'')) None = Parsed \<lparr>message = ''hello'', k_context = None\<rparr>"
  by code_simp

text \<open>
  C4, as amended. On the path with all three components, when the request parses, the message
  is valid and the similarity search returns no chunk, the same request goes on to
  \<open>generate_response\<close> without context: the sources are empty, the context note says that
  no relevant documents were found, and the globals (so the readiness of the service) are
  the ones before the request. The reported mode is \<open>LLM_ONLY\<close> when the generator call
  returns; when it raises, the mode is \<open>UNAVAILABLE\<close> and the response is the apology.
\<close>

theorem api_chat_empty_search_falls_back:
  assumes "system_ready g" and "rag_service g = Some rs"
    and "llm rs = Some h" and "vector_db rs = Some db" and "embedding_model rs \<noteq> None"
    and "from_dict m k = Parsed req"
    and "kk = (case k_context req of None \<Rightarrow> DEFAULT_K_RETRIEVAL e
               | Some i \<Rightarrow> if i = 0 then DEFAULT_K_RETRIEVAL e else i)"
    and "fst (validate_input (Str (message req)) 5000)"
    and "similarity_search_with_score db (message req) kk = Inr []"
  shows "api_chat e g (Json m k) =
    (JsonOk \<lparr>question = message req,
             response = (case invoke h (message req) of
                           Inl x \<Rightarrow> ''Sorry, an error occurred while generating the response''
                         | Inr answer \<Rightarrow> strip answer),
             context_provided_to_llm = ''No relevant documents found, using LLM-only mode'',
             sources = [],
             mode = (case invoke h (message req) of Inl x \<Rightarrow> UNAVAILABLE | Inr answer \<Rightarrow> LLM_ONLY),
             error = None\<rparr>,
     g,
     [SimilaritySearch (message req) kk, LLMInvoke (message req)] @
     (case invoke h (message req) of
        Inl x \<Rightarrow> [Log ERROR (''Error generating response: '' @ exc_str x)]
      | Inr answer \<Rightarrow> []))"
proof -
  obtain msg where v: "validate_input (Str (message req)) 5000 = (True, msg)"
    using assms(8) by (cases "validate_input (Str (message req)) 5000") auto
  have s: "search_similar_documents e rs (message req) (Some kk) =
             (([], []), rs, [SimilaritySearch (message req) kk])"
    using assms(4,9) v by (simp add: search_similar_documents_def)
  have gr: "generate_response rs (message req) [] =
      (case invoke h (message req) of
         Inl x \<Rightarrow> ((''Sorry, an error occurred while generating the response'', UNAVAILABLE), rs,
                    [LLMInvoke (message req), Log ERROR (''Error generating response: '' @ exc_str x)])
       | Inr answer \<Rightarrow> ((strip answer, LLM_ONLY), rs, [LLMInvoke (message req)]))"
    using assms(3) v by (simp add: generate_response_def split: sum.splits)
  have g: "g\<lparr>rag_service := Some rs\<rparr> = g"
    using assms(2) by simp
  show ?thesis
    using assms(1-7) s gr g
    by (cases "invoke h (message req)")
       (simp_all add: api_chat_def is_available_def is_rag_ready_def Let_def)
qed

theorem api_chat_empty_search_falls_back_witness:
  "is_rag_ready (service_full llm_echo db_none) \<and>
   similarity_search_with_score db_none ''hello'' 5 = Inr [] \<and>
   api_chat env_locked (globals_ready (service_full llm_echo db_none)) (Json (Some (Str ''hello'')) None) =
    (JsonOk \<lparr>question = ''hello'', response = ''answer to: hello'',
             context_provided_to_llm = ''No relevant documents found, using LLM-only mode'',
             sources = [], mode = LLM_ONLY, error = None\<rparr>,
     globals_ready (service_full llm_echo db_none),
     [SimilaritySearch ''hello'' 5, LLMInvoke ''hello''])"
proof -
  let ?rs = "service_full llm_echo db_none"
  let ?req = "\<lparr>message = ''hello'', k_context = None\<rparr>"
  have 1: "system_ready (globals_ready ?rs)" by (simp add: globals_ready_def)
  have 2: "rag_service (globals_ready ?rs) = Some ?rs" by (simp add: globals_ready_def)
  have 3: "llm ?rs = Some llm_echo" by (simp add: service_full_def)
  have 4: "vector_db ?rs = Some db_none" by (simp add: service_full_def)
  have 5: "embedding_model ?rs \<noteq> None" by (simp add: service_full_def)
  have 7: "(5::int) = (case k_context ?req of None \<Rightarrow> DEFAULT_K_RETRIEVAL env_locked
               | Some i \<Rightarrow> if i = 0 then DEFAULT_K_RETRIEVAL env_locked else i)"
    by (simp add: env_locked_def)
  have 8: "fst (validate_input (Str (message ?req)) 5000)" by (simp add: validate_hello)
  have 9: "similarity_search_with_score db_none (message ?req) 5 = Inr []"
    by (simp add: db_none_def)
  have r: "is_rag_ready ?rs" by (simp add: is_rag_ready_def service_full_def)
  have i: "invoke llm_echo ''hello'' = Inr (''  answer to: '' @ ''hello'' @ '' '')"
    by (simp add: llm_echo_def)
  show ?thesis
    using api_chat_empty_search_falls_back[OF 1 2 3 4 5 from_dict_hello 7 8 9] r 9 i
    by (simp add: strip_answer)
qed

theorem api_chat_empty_search_generator_down:
  "is_rag_ready (service_full llm_down db_none) \<and>
   similarity_search_with_score db_none ''hello'' 5 = Inr [] \<and>
   api_chat env_locked (globals_ready (service_full llm_down db_none)) (Json (Some (Str ''hello'')) None) =
    (JsonOk \<lparr>question = ''hello'',
             response = ''Sorry, an error occurred while generating the response'',
             context_provided_to_llm = ''No relevant documents found, using LLM-only mode'',
             sources = [], mode = UNAVAILABLE, error = None\<rparr>,
     globals_ready (service_full llm_down db_none),
     [SimilaritySearch ''hello'' 5, LLMInvoke ''hello'',
      Log ERROR ''Error generating response: connection reset''])"
  by (simp add: api_chat_def globals_ready_def service_full_def is_available_def is_rag_ready_def
      from_dict_hello env_locked_def search_similar_documents_def generate_response_def
      validate_hello db_none_def llm_down_def Let_def)

lemma api_chat_llm_only:
  assumes "system_ready g" and "rag_service g = Some rs"
    and "llm rs = Some h" and "\<not> is_rag_ready rs"
    and "from_dict m k = Parsed req"
    and "fst (validate_input (Str (message req)) 5000)"
    and "invoke h (message req) = Inr answer"
  shows "api_chat e g (Json m k) =
    (JsonOk \<lparr>question = message req, response = strip answer,
             context_provided_to_llm = ''LLM-only mode (no documents available)'',
             sources = [], mode = LLM_ONLY, error = None\<rparr>,
     g, [LLMInvoke (message req)])"
proof -
  obtain msg where v: "validate_input (Str (message req)) 5000 = (True, msg)"
    using assms(6) by (cases "validate_input (Str (message req)) 5000") auto
  have gr: "generate_response rs (message req) [] =
      ((strip answer, LLM_ONLY), rs, [LLMInvoke (message req)])"
    using assms(3,7) v by (simp add: generate_response_def)
  have g: "g\<lparr>rag_service := Some rs\<rparr> = g"
    using assms(2) by simp
  show ?thesis
    using assms(1-5) gr g by (simp add: api_chat_def is_available_def Let_def)
qed

lemma generate_response_without_context:
  assumes "llm rs = Some h"
  shows "generate_response rs query [] =
    (if \<not> fst (validate_input (Str query) 5000) then
       ((''Invalid input: '' @ snd (validate_input (Str query) 5000), UNAVAILABLE), rs, [])
     else case invoke h query of
       Inl x \<Rightarrow> ((''Sorry, an error occurred while generating the response'', UNAVAILABLE), rs,
                  [LLMInvoke query, Log ERROR (''Error generating response: '' @ exc_str x)])
     | Inr answer \<Rightarrow> ((strip answer, LLM_ONLY), rs, [LLMInvoke query]))"
  using assms
  by (cases "validate_input (Str query) 5000")
     (auto simp: generate_response_def split: sum.splits)

lemma api_chat_without_index:
  assumes "system_ready g" and "rag_service g = Some rs"
    and "llm rs = Some h" and "\<not> is_rag_ready rs"
    and "from_dict m k = Parsed req"
  shows "api_chat e g (Json m k) =
    (JsonOk \<lparr>question = message req,
             response = fst (fst (generate_response rs (message req) [])),
             context_provided_to_llm = ''LLM-only mode (no documents available)'',
             sources = [],
             mode = snd (fst (generate_response rs (message req) [])),
             error = None\<rparr>,
     g, snd (snd (generate_response rs (message req) [])))"
proof -
  obtain r md rs' evs where gr: "generate_response rs (message req) [] = ((r, md), rs', evs)"
    by (cases "generate_response rs (message req) []") auto
  have "rs' = rs"
    using gr generate_response_without_context[OF assms(3), of "message req"]
    by (auto split: if_splits sum.splits)
  then have g: "g\<lparr>rag_service := Some rs'\<rparr> = g"
    using assms(2) by simp
  show ?thesis
    using assms(1-5) gr g by (simp add: api_chat_def is_available_def Let_def)
qed

section \<open>Rebuilding the vector store\<close>

lemma attempts_list: "[0 ..< MAX_REBUILD_ATTEMPTS] = [0, 1, 2]"
  by code_simp

lemma str_nat_small: "str_nat 1 = ''1''" "str_nat 2 = ''2''" "str_nat 3 = ''3''"
  by code_simp+

lemma clean_all_locked:
  assumes "d \<noteq> Missing"
    and "erase_attempt e 0 = Some (PermissionError m0)"
    and "erase_attempt e 1 = Some (PermissionError m1)"
    and "erase_attempt e 2 = Some (PermissionError m2)"
  shows "clean_vector_store_directory e d =
    (d,
     [EraseAttempt 0, Log WARNING (''Attempt 1 to clean directory failed: '' @ m0), Sleep,
      EraseAttempt 1, Log WARNING (''Attempt 2 to clean directory failed: '' @ m1), Sleep,
      EraseAttempt 2, Log WARNING (''Attempt 3 to clean directory failed: '' @ m2),
      Log ERROR ''Failed to clean vector store directory''])"
proof -
  have s: "str_nat (Suc 0) = ''1''" "str_nat (Suc (Suc 0)) = ''2''" "str_nat (Suc (Suc (Suc 0))) = ''3''"
    using str_nat_small by (simp_all add: numeral_2_eq_2 numeral_3_eq_3)
  have a: "erase_attempt e (Suc 0) = Some (PermissionError m1)"
          "erase_attempt e (Suc (Suc 0)) = Some (PermissionError m2)"
    using assms(3,4) by (simp_all add: numeral_2_eq_2)
  have "clean_attempts e d [0, Suc 0, Suc (Suc 0)] =
    (d,
     [EraseAttempt 0, Log WARNING (''Attempt 1 to clean directory failed: '' @ m0), Sleep,
      EraseAttempt (Suc 0), Log WARNING (''Attempt 2 to clean directory failed: '' @ m1), Sleep,
      EraseAttempt (Suc (Suc 0)), Log WARNING (''Attempt 3 to clean directory failed: '' @ m2),
      Log ERROR ''Failed to clean vector store directory''])"
    using assms(2) a s by (simp add: MAX_REBUILD_ATTEMPTS_def)
  then show ?thesis
    using assms(1)
    by (cases d) (simp_all add: clean_vector_store_directory_def attempts_list numeral_2_eq_2)
qed

lemma clean_first_attempt:
  assumes "d \<noteq> Missing" and "erase_attempt e 0 = None"
  shows "clean_vector_store_directory e d = (Empty, [EraseAttempt 0])"
proof -
  have "clean_attempts e d [0, 1, 2] = (Empty, [EraseAttempt 0])"
    using assms(2) by simp
  then show ?thesis
    using assms(1) by (cases d) (simp_all add: clean_vector_store_directory_def attempts_list)
qed

lemma release_handle:
  "(if vector_db self \<noteq> None then self\<lparr>vector_db := None\<rparr> else self) = self\<lparr>vector_db := None\<rparr>"
  by (cases self) auto

lemma rebuild_vector_store_result:
  "rebuild_vector_store e d self cs =
    (case Chroma_from_documents e (fst (clean_vector_store_directory e d)) cs of
       (Inl x, d2) \<Rightarrow>
         (False, self\<lparr>vector_db := None\<rparr>, d2,
          snd (clean_vector_store_directory e d) @
          [ChromaFromDocuments (length cs), Log ERROR (''Error rebuilding vector store: '' @ exc_str x)])
     | (Inr db, d2) \<Rightarrow>
         (True, self\<lparr>vector_db := Some db\<rparr>, d2,
          snd (clean_vector_store_directory e d) @ [ChromaFromDocuments (length cs)]))"
  unfolding rebuild_vector_store_def release_handle
  by (simp add: Let_def case_prod_beta split: sum.splits prod.splits)

text \<open>
  C5, as amended. When the persist directory exists and every one of the three attempts to
  erase it raises \<open>PermissionError\<close>, each attempt is logged as a warning, the last one is
  followed by the error record \<open>Failed to clean vector store directory\<close>, and the rebuild goes
  on: it returns a value in every case (no exception escapes). What it returns is decided by
  building the new index. If \<open>Chroma.from_documents\<close> returns an index, the rebuild reports
  success and \<open>vector_db\<close> holds that index. If it raises, the rebuild reports failure,
  \<open>vector_db\<close> is \<open>None\<close>, the service is not RAG-ready, and every later chat request that
  parses is answered by \<open>generate_response\<close> without context and without any search: in
  mode \<open>LLM_ONLY\<close> when the query is valid and the generator call returns, in mode
  \<open>UNAVAILABLE\<close> when the query is invalid or the generator call raises.
\<close>

theorem rebuild_with_locked_directory:
  assumes "d \<noteq> Missing"
    and "erase_attempt e 0 = Some (PermissionError m0)"
    and "erase_attempt e 1 = Some (PermissionError m1)"
    and "erase_attempt e 2 = Some (PermissionError m2)"
  shows
   "let locked =
      [EraseAttempt 0, Log WARNING (''Attempt 1 to clean directory failed: '' @ m0), Sleep,
       EraseAttempt 1, Log WARNING (''Attempt 2 to clean directory failed: '' @ m1), Sleep,
       EraseAttempt 2, Log WARNING (''Attempt 3 to clean directory failed: '' @ m2),
       Log ERROR ''Failed to clean vector store directory'',
       ChromaFromDocuments (length cs)];
        (built, d2) = Chroma_from_documents e d cs
    in rebuild_vector_store e d self cs =
        (case built of
           Inl x \<Rightarrow> (False, self\<lparr>vector_db := None\<rparr>, d2,
                      locked @ [Log ERROR (''Error rebuilding vector store: '' @ exc_str x)])
         | Inr db \<Rightarrow> (True, self\<lparr>vector_db := Some db\<rparr>, d2, locked)) \<and>
       (\<forall>x. built = Inl x \<longrightarrow>
          \<not> is_rag_ready (self\<lparr>vector_db := None\<rparr>) \<and>
          (\<forall>g h m k req.
             system_ready g \<and> rag_service g = Some (self\<lparr>vector_db := None\<rparr>) \<and>
             llm self = Some h \<and> from_dict m k = Parsed req \<longrightarrow>
             api_chat e g (Json m k) =
               (JsonOk
                 \<lparr>question = message req,
                  response =
                    (if \<not> fst (validate_input (Str (message req)) 5000)
                     then ''Invalid input: '' @ snd (validate_input (Str (message req)) 5000)
                     else case invoke h (message req) of
                            Inl y \<Rightarrow> ''Sorry, an error occurred while generating the response''
                          | Inr answer \<Rightarrow> strip answer),
                  context_provided_to_llm = ''LLM-only mode (no documents available)'',
                  sources = [],
                  mode =
                    (if \<not> fst (validate_input (Str (message req)) 5000) then UNAVAILABLE
                     else case invoke h (message req) of
                            Inl y \<Rightarrow> UNAVAILABLE | Inr answer \<Rightarrow> LLM_ONLY),
                  error = None\<rparr>,
                g,
                (if \<not> fst (validate_input (Str (message req)) 5000) then []
                 else case invoke h (message req) of
                        Inl y \<Rightarrow> [LLMInvoke (message req),
                                   Log ERROR (''Error generating response: '' @ exc_str y)]
                      | Inr answer \<Rightarrow> [LLMInvoke (message req)]))))"
proof -
  note c = clean_all_locked[OF assms]
  obtain built d2 where f: "Chroma_from_documents e d cs = (built, d2)"
    by (cases "Chroma_from_documents e d cs") auto
  have r: "\<not> is_rag_ready (self\<lparr>vector_db := None\<rparr>)"
    by (simp add: is_rag_ready_def)
  have a: "api_chat e g (Json m k) =
               (JsonOk
                 \<lparr>question = message req,
                  response =
                    (if \<not> fst (validate_input (Str (message req)) 5000)
                     then ''Invalid input: '' @ snd (validate_input (Str (message req)) 5000)
                     else case invoke h (message req) of
                            Inl y \<Rightarrow> ''Sorry, an error occurred while generating the response''
                          | Inr answer \<Rightarrow> strip answer),
                  context_provided_to_llm = ''LLM-only mode (no documents available)'',
                  sources = [],
                  mode =
                    (if \<not> fst (validate_input (Str (message req)) 5000) then UNAVAILABLE
                     else case invoke h (message req) of
                            Inl y \<Rightarrow> UNAVAILABLE | Inr answer \<Rightarrow> LLM_ONLY),
                  error = None\<rparr>,
                g,
                (if \<not> fst (validate_input (Str (message req)) 5000) then []
                 else case invoke h (message req) of
                        Inl y \<Rightarrow> [LLMInvoke (message req),
                                   Log ERROR (''Error generating response: '' @ exc_str y)]
                      | Inr answer \<Rightarrow> [LLMInvoke (message req)]))"
    if "system_ready g \<and> rag_service g = Some (self\<lparr>vector_db := None\<rparr>) \<and>
        llm self = Some h \<and> from_dict m k = Parsed req"
    for g :: globals and h :: llm_handle and m :: "py_value option" and k :: "json_k option"
      and req :: ChatRequest
  proof -
    from that have 1: "system_ready g" and 2: "rag_service g = Some (self\<lparr>vector_db := None\<rparr>)"
      and 3: "llm (self\<lparr>vector_db := None\<rparr>) = Some h" and 4: "from_dict m k = Parsed req"
      by simp_all
    show ?thesis
      unfolding api_chat_without_index[OF 1 2 3 r 4, of e]
                generate_response_without_context[OF 3, of "message req"]
      by (simp split: sum.splits)
  qed
  have b: "rebuild_vector_store e d self cs =
        (case built of
           Inl x \<Rightarrow> (False, self\<lparr>vector_db := None\<rparr>, d2,
             [EraseAttempt 0, Log WARNING (''Attempt 1 to clean directory failed: '' @ m0), Sleep,
              EraseAttempt 1, Log WARNING (''Attempt 2 to clean directory failed: '' @ m1), Sleep,
              EraseAttempt 2, Log WARNING (''Attempt 3 to clean directory failed: '' @ m2),
              Log ERROR ''Failed to clean vector store directory'',
              ChromaFromDocuments (length cs)]
             @ [Log ERROR (''Error rebuilding vector store: '' @ exc_str x)])
         | Inr db \<Rightarrow> (True, self\<lparr>vector_db := Some db\<rparr>, d2,
             [EraseAttempt 0, Log WARNING (''Attempt 1 to clean directory failed: '' @ m0), Sleep,
              EraseAttempt 1, Log WARNING (''Attempt 2 to clean directory failed: '' @ m1), Sleep,
              EraseAttempt 2, Log WARNING (''Attempt 3 to clean directory failed: '' @ m2),
              Log ERROR ''Failed to clean vector store directory'',
              ChromaFromDocuments (length cs)]))"
    unfolding rebuild_vector_store_result c using f by (simp split: sum.splits)
  show ?thesis
    unfolding Let_def f prod.case
    using b r a by blast
qed

theorem rebuild_with_locked_directory_witness:
  "Holding (Inr db_old) \<noteq> Missing \<and>
   erase_attempt env_locked_no_build 0 = Some (PermissionError ''locked'') \<and>
   erase_attempt env_locked_no_build 1 = Some (PermissionError ''locked'') \<and>
   erase_attempt env_locked_no_build 2 = Some (PermissionError ''locked'') \<and>
   rebuild_vector_store env_locked_no_build (Holding (Inr db_old)) (service_full llm_echo db_old)
       [doc_a, doc_b] =
     (False, (service_full llm_echo db_old)\<lparr>vector_db := None\<rparr>, Holding (Inr db_old),
      [EraseAttempt 0, Log WARNING ''Attempt 1 to clean directory failed: locked'', Sleep,
       EraseAttempt 1, Log WARNING ''Attempt 2 to clean directory failed: locked'', Sleep,
       EraseAttempt 2, Log WARNING ''Attempt 3 to clean directory failed: locked'',
       Log ERROR ''Failed to clean vector store directory'',
       ChromaFromDocuments 2,
       Log ERROR ''Error rebuilding vector store: database is locked'']) \<and>
   api_chat env_locked_no_build
      (globals_ready ((service_full llm_echo db_old)\<lparr>vector_db := None\<rparr>))
      (Json (Some (Str ''hello'')) None) =
     (JsonOk \<lparr>question = ''hello'', response = ''answer to: hello'',
              context_provided_to_llm = ''LLM-only mode (no documents available)'',
              sources = [], mode = LLM_ONLY, error = None\<rparr>,
      globals_ready ((service_full llm_echo db_old)\<lparr>vector_db := None\<rparr>),
      [LLMInvoke ''hello''])"
proof -
  let ?e = env_locked_no_build
  let ?d = "Holding (Inr db_old)"
  let ?rs = "service_full llm_echo db_old"
  let ?g = "globals_ready (?rs\<lparr>vector_db := None\<rparr>)"
  have p: "?d \<noteq> Missing" by simp
  have e0: "erase_attempt ?e 0 = Some (PermissionError ''locked'')"
    by (simp add: env_locked_no_build_def env_locked_def)
  have e1: "erase_attempt ?e 1 = Some (PermissionError ''locked'')"
    by (simp add: env_locked_no_build_def env_locked_def)
  have e2: "erase_attempt ?e 2 = Some (PermissionError ''locked'')"
    by (simp add: env_locked_no_build_def env_locked_def)
  have f: "Chroma_from_documents ?e ?d [doc_a, doc_b] = (Inl (Exception ''database is locked''), ?d)"
    by (simp add: env_locked_no_build_def env_locked_def)
  have q: "system_ready ?g \<and> rag_service ?g = Some (?rs\<lparr>vector_db := None\<rparr>) \<and>
           llm ?rs = Some llm_echo \<and>
           from_dict (Some (Str ''hello'')) None = Parsed \<lparr>message = ''hello'', k_context = None\<rparr>"
    by (simp add: globals_ready_def service_full_def from_dict_hello)
  have i: "invoke llm_echo ''hello'' = Inr ''  answer to: hello ''"
    by (simp add: llm_echo_def)
  note t = rebuild_with_locked_directory[OF p e0 e1 e2, of "[doc_a, doc_b]" ?rs,
             unfolded Let_def f prod.case]
  note t1 = t[THEN conjunct1]
  note t2 = t[THEN conjunct2, rule_format, OF refl, THEN conjunct2, rule_format, OF q]
  have r: "rebuild_vector_store ?e ?d ?rs [doc_a, doc_b] =
     (False, ?rs\<lparr>vector_db := None\<rparr>, ?d,
      [EraseAttempt 0, Log WARNING ''Attempt 1 to clean directory failed: locked'', Sleep,
       EraseAttempt 1, Log WARNING ''Attempt 2 to clean directory failed: locked'', Sleep,
       EraseAttempt 2, Log WARNING ''Attempt 3 to clean directory failed: locked'',
       Log ERROR ''Failed to clean vector store directory'',
       ChromaFromDocuments 2,
       Log ERROR ''Error rebuilding vector store: database is locked''])"
    using t1 by simp
  have "api_chat ?e ?g (Json (Some (Str ''hello'')) None) =
     (JsonOk \<lparr>question = ''hello'', response = ''answer to: hello'',
              context_provided_to_llm = ''LLM-only mode (no documents available)'',
              sources = [], mode = LLM_ONLY, error = None\<rparr>,
      ?g, [LLMInvoke ''hello''])"
    using t2 by (simp add: validate_hello i strip_answer)
  with p e0 e1 e2 r show ?thesis by simp
qed

theorem rebuild_with_locked_directory_builds:
  "erase_attempt env_locked 0 = Some (PermissionError ''locked'') \<and>
   erase_attempt env_locked 1 = Some (PermissionError ''locked'') \<and>
   erase_attempt env_locked 2 = Some (PermissionError ''locked'') \<and>
   rebuild_vector_store env_locked (Holding (Inr db_old)) (service_full llm_echo db_old)
       [doc_a, doc_b] =
     (True, (service_full llm_echo db_old)\<lparr>vector_db := Some db_two\<rparr>, Holding (Inr db_two),
      [EraseAttempt 0, Log WARNING ''Attempt 1 to clean directory failed: locked'', Sleep,
       EraseAttempt 1, Log WARNING ''Attempt 2 to clean directory failed: locked'', Sleep,
       EraseAttempt 2, Log WARNING ''Attempt 3 to clean directory failed: locked'',
       Log ERROR ''Failed to clean vector store directory'',
       ChromaFromDocuments 2]) \<and>
   vector_db ((service_full llm_echo db_old)\<lparr>vector_db := Some db_two\<rparr>) \<noteq> None \<and>
   is_rag_ready ((service_full llm_echo db_old)\<lparr>vector_db := Some db_two\<rparr>)"
proof -
  have p: "Holding (Inr db_old) \<noteq> Missing" by simp
  have e: "erase_attempt env_locked n = Some (PermissionError ''locked'')" for n
    by (simp add: env_locked_def)
  have f: "Chroma_from_documents env_locked (Holding (Inr db_old)) [doc_a, doc_b] =
             (Inr db_two, Holding (Inr db_two))"
    by (simp add: env_locked_def)
  show ?thesis
    unfolding rebuild_vector_store_result clean_all_locked[OF p e e e]
    using e f by (simp add: is_rag_ready_def service_full_def)
qed

section \<open>The staleness check\<close>

lemma check_vector_store_rebuild_verdict:
  "fst (check_vector_store_rebuild d self cs) \<longleftrightarrow>
     (d = Missing \<or> d = Empty \<or> (\<exists>x. d = Unreadable x) \<or> (\<exists>x. d = Holding (Inl x)) \<or>
      (\<exists>db. d = Holding (Inr db) \<and>
         ((\<exists>x. collection_count db = Inl x) \<or>
          (\<exists>n. collection_count db = Inr n \<and> n \<noteq> length cs))))"
  by (auto simp: check_vector_store_rebuild_def Let_def split: sum.splits persist_dir.splits)

lemma check_vector_store_rebuild_fresh:
  assumes "d = Holding (Inr db)" and "collection_count db = Inr (length cs)"
  shows "check_vector_store_rebuild d self cs =
           (False, self\<lparr>vector_db := Some db\<rparr>, [ChromaOpen, ChromaCount])"
  using assms by (simp add: check_vector_store_rebuild_def)

lemma check_vector_store_rebuild_fresh_iff:
  "\<not> fst (check_vector_store_rebuild d self cs) \<longleftrightarrow>
     (\<exists>db. d = Holding (Inr db) \<and> collection_count db = Inr (length cs))"
  by (auto simp: check_vector_store_rebuild_def Let_def split: sum.splits persist_dir.splits)

lemma check_vector_store_rebuild_stale:
  assumes "fst (check_vector_store_rebuild d self cs)"
  shows "fst (snd (check_vector_store_rebuild d self cs)) = self"
  using assms
  by (auto simp: check_vector_store_rebuild_def Let_def split: sum.splits persist_dir.splits)

lemma initialize_vector_store_fresh:
  assumes "embedding_model self \<noteq> None" and "cs \<noteq> []" and "persist_makedirs e = None"
    and "d = Holding (Inr db)" and "collection_count db = Inr (length cs)"
  shows "initialize_vector_store e d self cs =
           ((True, None), self\<lparr>vector_db := Some db\<rparr>, d, [ChromaOpen, ChromaCount])"
  using assms(1-4)
  by (simp add: initialize_vector_store_def Let_def
      check_vector_store_rebuild_fresh[OF refl assms(5)])

lemma initialize_vector_store_stale_disk:
  assumes "embedding_model self \<noteq> None" and "cs \<noteq> []" and "persist_makedirs e = None"
    and "fst (check_vector_store_rebuild d self cs)"
  shows "fst (snd (snd (initialize_vector_store e d self cs))) =
           snd (Chroma_from_documents e
                  (fst (clean_vector_store_directory e (case d of Missing \<Rightarrow> Empty | _ \<Rightarrow> d))) cs)"
proof -
  let ?d0 = "case d of Missing \<Rightarrow> Empty | _ \<Rightarrow> d"
  have v: "fst (check_vector_store_rebuild ?d0 self cs)"
    using assms(4) by (cases d) (simp_all add: check_vector_store_rebuild_def)
  obtain self1 evs1 where c: "check_vector_store_rebuild ?d0 self cs = (True, self1, evs1)"
    using v by (cases "check_vector_store_rebuild ?d0 self cs") auto
  show ?thesis
    using assms(1-3)
    by (auto simp: initialize_vector_store_def Let_def c rebuild_vector_store_result
        case_prod_beta split: sum.splits prod.splits)
qed

text \<open>
  C6, as amended. The check decides to rebuild exactly when the persist directory is
  missing, or is empty, or the count stored in the persisted index differs from the number
  of current chunks, or a step of loading it (listing the directory, opening the index,
  reading its count) raises. Otherwise it reports fresh and keeps the loaded index as
  \<open>vector_db\<close>; a stale verdict leaves the service as it was. When \<open>initialize_vector_store\<close>
  has run once, with the rebuild that a stale verdict triggers, the check on the directory
  it leaves, with the same chunks, is fresh exactly when that directory holds an index
  whose stored count is the number of chunks; then a second run reuses that index and
  neither erases nor builds anything. This is so whenever the first verdict was fresh, the
  directory being left as it was. After a stale verdict the directory is the one that
  building the new index left, and the second verdict depends on it.
\<close>

theorem staleness_check_decision:
  "let (needs_rebuild, self', evs) = check_vector_store_rebuild d self cs
   in (needs_rebuild \<longleftrightarrow>
         (d = Missing \<or> d = Empty \<or> (\<exists>x. d = Unreadable x) \<or> (\<exists>x. d = Holding (Inl x)) \<or>
          (\<exists>db. d = Holding (Inr db) \<and>
             ((\<exists>x. collection_count db = Inl x) \<or>
              (\<exists>n. collection_count db = Inr n \<and> n \<noteq> length cs))))) \<and>
      (needs_rebuild \<longrightarrow> self' = self) \<and>
      (\<not> needs_rebuild \<longrightarrow>
         (\<exists>db. d = Holding (Inr db) \<and> collection_count db = Inr (length cs) \<and>
               self' = self\<lparr>vector_db := Some db\<rparr>)) \<and>
      (embedding_model self \<noteq> None \<and> cs \<noteq> [] \<and> persist_makedirs e = None \<longrightarrow>
         (let (r1, self1, d1, evs1) = initialize_vector_store e d self cs
          in (\<not> needs_rebuild \<longrightarrow> d1 = d) \<and>
             (needs_rebuild \<longrightarrow>
                d1 = snd (Chroma_from_documents e
                       (fst (clean_vector_store_directory e
                              (case d of Missing \<Rightarrow> Empty | _ \<Rightarrow> d))) cs)) \<and>
             (\<not> fst (check_vector_store_rebuild d1 self1 cs) \<longleftrightarrow>
                (\<exists>db. d1 = Holding (Inr db) \<and> collection_count db = Inr (length cs))) \<and>
             (\<forall>db. d1 = Holding (Inr db) \<and> collection_count db = Inr (length cs) \<longrightarrow>
                initialize_vector_store e d1 self1 cs =
                  ((True, None), self1\<lparr>vector_db := Some db\<rparr>, d1, [ChromaOpen, ChromaCount]))))"
proof -
  obtain n self' evs where c: "check_vector_store_rebuild d self cs = (n, self', evs)"
    by (cases "check_vector_store_rebuild d self cs") auto
  have v: "n \<longleftrightarrow>
     (d = Missing \<or> d = Empty \<or> (\<exists>x. d = Unreadable x) \<or> (\<exists>x. d = Holding (Inl x)) \<or>
      (\<exists>db. d = Holding (Inr db) \<and>
         ((\<exists>x. collection_count db = Inl x) \<or>
          (\<exists>n. collection_count db = Inr n \<and> n \<noteq> length cs))))"
    using check_vector_store_rebuild_verdict[of d self cs] c by simp
  have stale: "self' = self" if "n"
    using check_vector_store_rebuild_stale[of d self cs] c that by simp
  have fresh: "\<exists>db. d = Holding (Inr db) \<and> collection_count db = Inr (length cs) \<and>
               self' = self\<lparr>vector_db := Some db\<rparr>" if "\<not> n"
  proof -
    from that v obtain opened where h: "d = Holding opened" by (cases d) auto
    from that v h obtain db where o: "opened = Inr db" by (cases opened) auto
    from that v h o have k: "collection_count db = Inr (length cs)"
      by (cases "collection_count db") auto
    from check_vector_store_rebuild_fresh[of d db cs self] h o k c
    show ?thesis by simp
  qed
  have two: "(let (r1, self1, d1, evs1) = initialize_vector_store e d self cs
          in (\<not> n \<longrightarrow> d1 = d) \<and>
             (n \<longrightarrow>
                d1 = snd (Chroma_from_documents e
                       (fst (clean_vector_store_directory e
                              (case d of Missing \<Rightarrow> Empty | _ \<Rightarrow> d))) cs)) \<and>
             (\<not> fst (check_vector_store_rebuild d1 self1 cs) \<longleftrightarrow>
                (\<exists>db. d1 = Holding (Inr db) \<and> collection_count db = Inr (length cs))) \<and>
             (\<forall>db. d1 = Holding (Inr db) \<and> collection_count db = Inr (length cs) \<longrightarrow>
                initialize_vector_store e d1 self1 cs =
                  ((True, None), self1\<lparr>vector_db := Some db\<rparr>, d1, [ChromaOpen, ChromaCount])))"
    if p: "embedding_model self \<noteq> None \<and> cs \<noteq> [] \<and> persist_makedirs e = None"
  proof -
    obtain r1 self1 d1 evs1 where i: "initialize_vector_store e d self cs = (r1, self1, d1, evs1)"
      by (cases "initialize_vector_store e d self cs") auto
    have em: "embedding_model self1 \<noteq> None"
      using initialize_vector_store_keeps[OF i] p by simp
    have same: "d1 = d" if "\<not> n"
    proof -
      from fresh[OF that] obtain db where
        "d = Holding (Inr db)" "collection_count db = Inr (length cs)" by blast
      from initialize_vector_store_fresh[OF _ _ _ this, of self e] p i
      show ?thesis by simp
    qed
    have again: "\<not> fst (check_vector_store_rebuild d1 self1 cs) \<longleftrightarrow>
                (\<exists>db. d1 = Holding (Inr db) \<and> collection_count db = Inr (length cs))"
      by (rule check_vector_store_rebuild_fresh_iff)
    have run: "initialize_vector_store e d1 self1 cs =
                  ((True, None), self1\<lparr>vector_db := Some db\<rparr>, d1, [ChromaOpen, ChromaCount])"
      if "d1 = Holding (Inr db) \<and> collection_count db = Inr (length cs)" for db
      using initialize_vector_store_fresh[OF em _ _ _ _, of cs e d1 db] p that by simp
    have left: "d1 = snd (Chroma_from_documents e
                       (fst (clean_vector_store_directory e
                              (case d of Missing \<Rightarrow> Empty | _ \<Rightarrow> d))) cs)" if "n"
      using initialize_vector_store_stale_disk[of self cs e d] p c that i by simp
    show ?thesis
      unfolding i using same left again run by simp
  qed
  show ?thesis
    unfolding c using v stale fresh two by simp
qed

lemma count_examples:
  "collection_count db_old = Inr 5" "collection_count db_two = Inr 2"
  by (simp_all add: db_old_def db_two_def)

lemma first_run_rebuilds:
  "initialize_vector_store env_builds (Holding (Inr db_old)) (service_full llm_echo db_old)
       [doc_a, doc_b] =
     ((True, None), (service_full llm_echo db_old)\<lparr>vector_db := Some db_two\<rparr>,
      Holding (Inr db_two),
      [ChromaOpen, ChromaCount, EraseAttempt 0, ChromaFromDocuments 2])"
proof -
  have c: "check_vector_store_rebuild (Holding (Inr db_old)) (service_full llm_echo db_old)
              [doc_a, doc_b] = (True, service_full llm_echo db_old, [ChromaOpen, ChromaCount])"
    by (simp add: check_vector_store_rebuild_def count_examples)
  have e: "erase_attempt env_builds 0 = None"
    by (simp add: env_builds_def env_locked_def)
  have f: "Chroma_from_documents env_builds Empty [doc_a, doc_b] = (Inr db_two, Holding (Inr db_two))"
    by (simp add: env_builds_def env_locked_def)
  have r: "rebuild_vector_store env_builds (Holding (Inr db_old)) (service_full llm_echo db_old)
              [doc_a, doc_b] =
           (True, (service_full llm_echo db_old)\<lparr>vector_db := Some db_two\<rparr>,
            Holding (Inr db_two), [EraseAttempt 0, ChromaFromDocuments 2])"
  proof -
    have p: "Holding (Inr db_old) \<noteq> Missing" by simp
    show ?thesis
      unfolding rebuild_vector_store_result clean_first_attempt[OF p e]
      using f by simp
  qed
  have em: "embedding_model (service_full llm_echo db_old) \<noteq> None"
    by (simp add: service_full_def)
  have pm: "persist_makedirs env_builds = None"
    by (simp add: env_builds_def env_locked_def)
  show ?thesis
    using em pm by (simp add: initialize_vector_store_def Let_def c r)
qed

theorem staleness_check_decision_witness:
  "fst (check_vector_store_rebuild (Holding (Inr db_old)) (service_full llm_echo db_old)
          [doc_a, doc_b]) \<and>
   initialize_vector_store env_builds (Holding (Inr db_old)) (service_full llm_echo db_old)
       [doc_a, doc_b] =
     ((True, None), (service_full llm_echo db_old)\<lparr>vector_db := Some db_two\<rparr>,
      Holding (Inr db_two),
      [ChromaOpen, ChromaCount, EraseAttempt 0, ChromaFromDocuments 2]) \<and>
   \<not> fst (check_vector_store_rebuild (Holding (Inr db_two))
            ((service_full llm_echo db_old)\<lparr>vector_db := Some db_two\<rparr>) [doc_a, doc_b]) \<and>
   initialize_vector_store env_builds (Holding (Inr db_two))
       ((service_full llm_echo db_old)\<lparr>vector_db := Some db_two\<rparr>) [doc_a, doc_b] =
     ((True, None), (service_full llm_echo db_old)\<lparr>vector_db := Some db_two\<rparr>,
      Holding (Inr db_two), [ChromaOpen, ChromaCount])"
proof -
  let ?rs = "service_full llm_echo db_old"
  let ?cs = "[doc_a, doc_b]"
  have c: "check_vector_store_rebuild (Holding (Inr db_old)) ?rs ?cs =
             (True, ?rs, [ChromaOpen, ChromaCount])"
    by (simp add: check_vector_store_rebuild_def count_examples)
  have p: "embedding_model ?rs \<noteq> None \<and> ?cs \<noteq> [] \<and> persist_makedirs env_builds = None"
    by (simp add: service_full_def env_builds_def env_locked_def)
  have k: "Holding (Inr db_two) = Holding (Inr db_two) \<and> collection_count db_two = Inr (length ?cs)"
    by (simp add: count_examples)
  note t = staleness_check_decision[of "Holding (Inr db_old)" ?rs ?cs env_builds,
             unfolded c Let_def prod.case first_run_rebuilds]
  note t4 = t[THEN conjunct2, THEN conjunct2, THEN conjunct2, rule_format, OF p]
  note again = t4[THEN conjunct2, THEN conjunct2, THEN conjunct1]
  note run = t4[THEN conjunct2, THEN conjunct2, THEN conjunct2, rule_format, OF k]
  have f: "\<not> fst (check_vector_store_rebuild (Holding (Inr db_two))
            (?rs\<lparr>vector_db := Some db_two\<rparr>) ?cs)"
    using again k by blast
  have u: "?rs\<lparr>vector_db := Some db_two\<rparr>\<lparr>vector_db := Some db_two\<rparr> = ?rs\<lparr>vector_db := Some db_two\<rparr>"
    by simp
  from c f run first_run_rebuilds show ?thesis by (simp only: u fst_conv) simp
qed

theorem staleness_check_after_failed_rebuild:
  "fst (check_vector_store_rebuild (Holding (Inr db_old)) (service_full llm_echo db_old)
          [doc_a, doc_b]) \<and>
   initialize_vector_store env_build_fails (Holding (Inr db_old)) (service_full llm_echo db_old)
       [doc_a, doc_b] =
     ((False, Some ''Failed to rebuild vector store''),
      (service_full llm_echo db_old)\<lparr>vector_db := None\<rparr>, Empty,
      [ChromaOpen, ChromaCount, EraseAttempt 0, ChromaFromDocuments 2,
       Log ERROR ''Error rebuilding vector store: embedding failed'']) \<and>
   fst (check_vector_store_rebuild Empty ((service_full llm_echo db_old)\<lparr>vector_db := None\<rparr>)
          [doc_a, doc_b])"
proof -
  let ?rs = "service_full llm_echo db_old"
  have c: "check_vector_store_rebuild (Holding (Inr db_old)) ?rs [doc_a, doc_b] =
             (True, ?rs, [ChromaOpen, ChromaCount])"
    by (simp add: check_vector_store_rebuild_def count_examples)
  have e: "erase_attempt env_build_fails 0 = None"
    by (simp add: env_build_fails_def env_locked_def)
  have f: "Chroma_from_documents env_build_fails Empty [doc_a, doc_b] =
             (Inl (Exception ''embedding failed''), Empty)"
    by (simp add: env_build_fails_def env_locked_def)
  have p: "Holding (Inr db_old) \<noteq> Missing" by simp
  have r: "rebuild_vector_store env_build_fails (Holding (Inr db_old)) ?rs [doc_a, doc_b] =
           (False, ?rs\<lparr>vector_db := None\<rparr>, Empty,
            [EraseAttempt 0, ChromaFromDocuments 2,
             Log ERROR ''Error rebuilding vector store: embedding failed''])"
    unfolding rebuild_vector_store_result clean_first_attempt[OF p e]
    using f by simp
  have em: "embedding_model ?rs \<noteq> None" by (simp add: service_full_def)
  have pm: "persist_makedirs env_build_fails = None"
    by (simp add: env_build_fails_def env_locked_def)
  have i: "initialize_vector_store env_build_fails (Holding (Inr db_old)) ?rs [doc_a, doc_b] =
     ((False, Some ''Failed to rebuild vector store''), ?rs\<lparr>vector_db := None\<rparr>, Empty,
      [ChromaOpen, ChromaCount, EraseAttempt 0, ChromaFromDocuments 2,
       Log ERROR ''Error rebuilding vector store: embedding failed''])"
    using em pm by (simp add: initialize_vector_store_def Let_def c r)
  have s: "fst (check_vector_store_rebuild Empty (?rs\<lparr>vector_db := None\<rparr>) [doc_a, doc_b])"
    by (simp add: check_vector_store_rebuild_def)
  from c i s show ?thesis by simp
qed

section \<open>Validation\<close>

lemma str_int_5000: "str_int 5000 = ''5000''"
  by code_simp

lemma validate_input_result:
  "validate_input (Str query) 5000 =
    (if strip query = [] then (False, ''Input cannot be empty'')
     else if 5000 < int (length (strip query)) then (False, ''Input too long (max 5000 characters)'')
     else if \<exists>p \<in> set suspicious_patterns. re_search p (strip query)
       then (False, ''Input contains suspicious content'')
     else (True, []))"
  by (simp add: validate_input_def Let_def list_ex_iff str_int_5000)

lemma first_literal:
  assumes "re_search (Seq (Atom (Lit l)) r) s"
  shows "\<exists>c \<in> set s. lower c = lower l"
proof -
  from assms obtain a p b where s: "s = a @ p @ b" and m: "matches (Seq (Atom (Lit l)) r) p"
    using re_search_iff by blast
  from m obtain u v where p: "p = u @ v" and u: "matches (Atom (Lit l)) u"
    by (auto elim: m_SeqE)
  from u obtain c where "u = [c]" "cls_match (Lit l) c"
    by (auto elim: m_AtomE)
  with s p show ?thesis by auto
qed

lemma first_literal_nested:
  assumes "re_search (Seq (Seq (Atom (Lit l)) r1) r2) s"
  shows "\<exists>c \<in> set s. lower c = lower l"
proof -
  from assms obtain a p b where s: "s = a @ p @ b"
    and m: "matches (Seq (Seq (Atom (Lit l)) r1) r2) p"
    using re_search_iff by blast
  from m obtain u v where p: "p = u @ v" and u: "matches (Seq (Atom (Lit l)) r1) u"
    by (auto elim: m_SeqE)
  from u obtain u1 u2 where u12: "u = u1 @ u2" and u1: "matches (Atom (Lit l)) u1"
    by (auto elim: m_SeqE)
  from u1 obtain c where "u1 = [c]" "cls_match (Lit l) c"
    by (auto elim: m_AtomE)
  with s p u12 show ?thesis by auto
qed

lemma suspicious_first_literal:
  assumes "p \<in> set suspicious_patterns" and "re_search p s"
  shows "\<exists>c \<in> set s. lower c \<in> {CHR ''<'', CHR ''j'', CHR ''o'', CHR ''d''}"
proof -
  have l: "lower (CHR ''<'') = CHR ''<''" "lower (CHR ''j'') = CHR ''j''"
          "lower (CHR ''o'') = CHR ''o''" "lower (CHR ''d'') = CHR ''d''"
    by (simp_all add: lower_def is_ascii_upper_def code_def)
  from assms(1) consider
      r1 r2 where "p = Seq (Seq (Atom (Lit (CHR ''<''))) r1) r2"
    | r where "p = Seq (Atom (Lit (CHR ''j''))) r"
    | r1 r2 where "p = Seq (Seq (Atom (Lit (CHR ''o''))) r1) r2"
    | r where "p = Seq (Atom (Lit (CHR ''d''))) r"
    by (auto simp: suspicious_patterns_def seqs_def)
  then show ?thesis
  proof cases
    case 1 with assms(2) first_literal_nested[of "CHR ''<''" r1 r2 s] l show ?thesis by auto
  next
    case 2 with assms(2) first_literal[of "CHR ''j''" r s] l show ?thesis by auto
  next
    case 3 with assms(2) first_literal_nested[of "CHR ''o''" r1 r2 s] l show ?thesis by auto
  next
    case 4 with assms(2) first_literal[of "CHR ''d''" r s] l show ?thesis by auto
  qed
qed

lemma strip_trailing_space:
  assumes "xs \<noteq> []" and "\<not> is_space (hd xs)" and "\<not> is_space (last xs)"
  shows "strip (xs @ '' '') = xs"
proof -
  have sp: "is_space (CHR '' '')" by (simp add: is_space_def code_def)
  from assms(1,2) have d1: "dropWhile is_space (xs @ '' '') = xs @ '' ''"
    by (cases xs) auto
  have d2: "dropWhile is_space (rev (xs @ '' '')) = rev xs"
    using assms(1,3) sp by (cases xs rule: rev_cases) auto
  show ?thesis by (simp only: strip_def d1 d2 rev_rev_ident)
qed

lemma validate_long_padded:
  "validate_input (Str (replicate 5000 (CHR ''a'') @ '' '')) 5000 = (True, [])"
proof -
  let ?t = "replicate 5000 (CHR ''a'')"
  have ns: "\<not> is_space (CHR ''a'')" by (simp add: is_space_def code_def)
  have ne: "?t \<noteq> []" by simp
  have h: "hd ?t = CHR ''a''" by (simp add: hd_replicate)
  have la: "last ?t = CHR ''a''" by (simp add: last_replicate)
  have st: "strip (?t @ '' '') = ?t"
    using strip_trailing_space[OF ne] h la ns by simp
  have lo: "lower (CHR ''a'') = CHR ''a''" by (simp add: lower_def is_ascii_upper_def code_def)
  have no: "\<not> (\<exists>p \<in> set suspicious_patterns. re_search p ?t)"
  proof
    assume "\<exists>p \<in> set suspicious_patterns. re_search p ?t"
    then obtain p where "p \<in> set suspicious_patterns" "re_search p ?t" by blast
    from suspicious_first_literal[OF this]
    obtain c where "c \<in> set ?t" "lower c \<in> {CHR ''<'', CHR ''j'', CHR ''o'', CHR ''d''}"
      by blast
    then show False using lo by simp
  qed
  show ?thesis
    unfolding validate_input_result st using no by simp
qed

lemma generate_response_invalid:
  assumes "llm self \<noteq> None" and "\<not> fst (validate_input (Str query) 5000)"
  shows "generate_response self query context =
    ((''Invalid input: '' @ snd (validate_input (Str query) 5000), UNAVAILABLE), self, [])"
  using assms
  by (cases "validate_input (Str query) 5000") (auto simp: generate_response_def)

lemma search_similar_documents_invalid:
  assumes "vector_db self \<noteq> None" and "\<not> fst (validate_input (Str query) 5000)"
  shows "search_similar_documents e self query k =
    (([], []), self, [Log WARNING (''Invalid search query: '' @ snd (validate_input (Str query) 5000))])"
  using assms
  by (cases "validate_input (Str query) 5000") (auto simp: search_similar_documents_def)

lemma api_chat_invalid_input:
  assumes "system_ready g" and "rag_service g = Some rs" and "llm rs \<noteq> None"
    and "from_dict m k = Parsed req"
    and "\<not> fst (validate_input (Str (message req)) 5000)"
  shows "api_chat e g (Json m k) =
    (JsonOk \<lparr>question = message req,
             response = ''Invalid input: '' @ snd (validate_input (Str (message req)) 5000),
             context_provided_to_llm =
               (if is_rag_ready rs then ''No relevant documents found, using LLM-only mode''
                else ''LLM-only mode (no documents available)''),
             sources = [], mode = UNAVAILABLE, error = None\<rparr>,
     g,
     (if is_rag_ready rs
      then [Log WARNING (''Invalid search query: '' @ snd (validate_input (Str (message req)) 5000))]
      else []))"
proof -
  note gr = generate_response_invalid[OF assms(3) assms(5)]
  have g: "g\<lparr>rag_service := Some rs\<rparr> = g"
    using assms(2) by simp
  show ?thesis
  proof (cases "is_rag_ready rs")
    case True
    then have "vector_db rs \<noteq> None" by (simp add: is_rag_ready_def)
    note s = search_similar_documents_invalid[OF this assms(5)]
    show ?thesis
      using assms(1-4) True g by (simp add: api_chat_def is_available_def Let_def s gr)
  next
    case False
    show ?thesis
      using assms(1-4) False g by (simp add: api_chat_def is_available_def Let_def gr)
  qed
qed

lemma strip_ends:
  "strip s = [] \<or> (\<not> is_space (hd (strip s)) \<and> \<not> is_space (last (strip s)))"
proof (cases "strip s = []")
  case True then show ?thesis by simp
next
  case False
  define ys where "ys = dropWhile is_space s"
  define zs where "zs = dropWhile is_space (rev ys)"
  have st: "strip s = rev zs" by (simp add: strip_def ys_def zs_def)
  with False have zne: "zs \<noteq> []" by simp
  then have hz: "\<not> is_space (hd zs)" unfolding zs_def by (rule hd_dropWhile)
  have "rev ys = takeWhile is_space (rev ys) @ zs" by (simp add: zs_def)
  then have "ys = rev zs @ rev (takeWhile is_space (rev ys))"
    by (metis rev_append rev_rev_ident)
  then obtain ts where eq: "ys = rev zs @ ts" by blast
  have yne: "ys \<noteq> []" using eq zne by simp
  have hy: "hd ys = hd (rev zs)" using zne by (subst eq) (simp add: hd_append)
  from yne have "\<not> is_space (hd ys)" unfolding ys_def by (rule hd_dropWhile)
  with hy have "\<not> is_space (hd (rev zs))" by simp
  moreover have "last (rev zs) = hd zs" using zne by (simp add: last_rev)
  ultimately show ?thesis using hz st by simp
qed

lemma strip_strip: "strip (strip s) = strip s"
proof (cases "strip s = []")
  case True
  have "strip [] = []" by (simp add: strip_def)
  with True show ?thesis by simp
next
  case False
  with strip_ends[of s] have h: "\<not> is_space (hd (strip s))" and l: "\<not> is_space (last (strip s))"
    by auto
  have 1: "dropWhile is_space (strip s) = strip s"
    using h by (simp add: dropWhile_eq_self_iff)
  have "hd (rev (strip s)) = last (strip s)" using False by (simp add: hd_rev)
  then have 2: "dropWhile is_space (rev (strip s)) = rev (strip s)"
    using l by (simp add: dropWhile_eq_self_iff)
  show ?thesis
    by (simp add: strip_def[of "strip s"] 1 2)
qed

lemma validate_input_strip:
  "validate_input (Str (strip query)) n = validate_input (Str query) n"
  by (simp add: validate_input_def strip_strip)

lemma from_dict_blank:
  assumes "strip s = []"
  shows "from_dict (Some (Str s)) k = ValueError ''Message cannot be empty''"
  using assms by (simp add: from_dict_def)

lemma from_dict_message:
  assumes "strip s \<noteq> []" and "k = None \<or> (\<exists>i. 0 < i \<and> k = Some (KInt i))"
  shows "\<exists>req. from_dict (Some (Str s)) k = Parsed req \<and> message req = strip s"
  using assms by (auto simp: from_dict_def)

lemma api_chat_blank_message:
  assumes "system_ready g" and "rag_service g = Some rs" and "llm rs \<noteq> None"
    and "strip s = []"
  shows "api_chat e g (Json (Some (Str s)) k) =
           (JsonError 400 ''Message cannot be empty'' None, g, [])"
  using assms(1-3)
  by (simp add: api_chat_def is_available_def from_dict_blank[OF assms(4)])

text \<open>
  C7, as amended. \<open>validate_input\<close> works on the query stripped of surrounding whitespace: it
  rejects a query that is then empty, or then longer than 5000 characters, or then matched
  by one of the four patterns without regard to case, and accepts every other string. After a
  rejection \<open>generate_response\<close> and \<open>search_similar_documents\<close> return at once with mode
  \<open>UNAVAILABLE\<close> and no results, and the only event is a log record: no embedder, index
  store or generator is called. At the chat endpoint a blank message is refused before
  that, by the parsing of the request, with status 400 and the error \<open>Message cannot be
  empty\<close>; an over-long or matched message is answered with status 200 and mode
  \<open>UNAVAILABLE\<close>, the status and mode that a generator failure has too, and differs from
  that one by its text, which begins with \<open>Invalid input:\<close>.
\<close>

theorem validation_failure_short_circuits:
  "(fst (validate_input (Str query) 5000) \<longleftrightarrow>
      \<not> (strip query = [] \<or> 5000 < int (length (strip query)) \<or>
         (\<exists>p \<in> set suspicious_patterns. re_search p (strip query)))) \<and>
   validate_input (Str (strip query)) 5000 = validate_input (Str query) 5000 \<and>
   (\<not> fst (validate_input (Str query) 5000) \<longrightarrow>
      snd (validate_input (Str query) 5000) \<in>
        {''Input cannot be empty'', ''Input too long (max 5000 characters)'',
         ''Input contains suspicious content''} \<and>
      (llm self \<noteq> None \<longrightarrow>
         generate_response self query context =
           ((''Invalid input: '' @ snd (validate_input (Str query) 5000), UNAVAILABLE), self, [])) \<and>
      (vector_db self \<noteq> None \<longrightarrow>
         search_similar_documents e self query k =
           (([], []), self,
            [Log WARNING (''Invalid search query: '' @ snd (validate_input (Str query) 5000))])) \<and>
      ''Invalid input: '' @ snd (validate_input (Str query) 5000)
        \<noteq> ''Sorry, an error occurred while generating the response'' \<and>
      (\<forall>g kk.
         system_ready g \<and> rag_service g = Some self \<and> llm self \<noteq> None \<longrightarrow>
         (strip query = [] \<longrightarrow>
            api_chat e g (Json (Some (Str query)) kk) =
              (JsonError 400 ''Message cannot be empty'' None, g, [])) \<and>
         (strip query \<noteq> [] \<and> (kk = None \<or> (\<exists>i. 0 < i \<and> kk = Some (KInt i))) \<longrightarrow>
            (\<exists>note evs.
               api_chat e g (Json (Some (Str query)) kk) =
                 (JsonOk \<lparr>question = strip query,
                          response = ''Invalid input: '' @ snd (validate_input (Str query) 5000),
                          context_provided_to_llm = note, sources = [],
                          mode = UNAVAILABLE, error = None\<rparr>, g, evs) \<and>
               list_all (\<lambda>ev. \<not> is_component_call ev) evs))))"
proof (intro conjI impI)
  show "fst (validate_input (Str query) 5000) \<longleftrightarrow>
      \<not> (strip query = [] \<or> 5000 < int (length (strip query)) \<or>
         (\<exists>p \<in> set suspicious_patterns. re_search p (strip query)))"
    by (simp add: validate_input_result)
next
  show "validate_input (Str (strip query)) 5000 = validate_input (Str query) 5000"
    by (rule validate_input_strip)
next
  assume inv: "\<not> fst (validate_input (Str query) 5000)"
  show "snd (validate_input (Str query) 5000) \<in>
        {''Input cannot be empty'', ''Input too long (max 5000 characters)'',
         ''Input contains suspicious content''}"
    using inv by (simp add: validate_input_result split: if_splits)
  show "generate_response self query context =
           ((''Invalid input: '' @ snd (validate_input (Str query) 5000), UNAVAILABLE), self, [])"
    if "llm self \<noteq> None"
    using generate_response_invalid[OF that inv] .
  show "search_similar_documents e self query k =
           (([], []), self,
            [Log WARNING (''Invalid search query: '' @ snd (validate_input (Str query) 5000))])"
    if "vector_db self \<noteq> None"
    using search_similar_documents_invalid[OF that inv] .
  show "''Invalid input: '' @ snd (validate_input (Str query) 5000)
        \<noteq> ''Sorry, an error occurred while generating the response''"
    by simp
  show "\<forall>g kk.
         system_ready g \<and> rag_service g = Some self \<and> llm self \<noteq> None \<longrightarrow>
         (strip query = [] \<longrightarrow>
            api_chat e g (Json (Some (Str query)) kk) =
              (JsonError 400 ''Message cannot be empty'' None, g, [])) \<and>
         (strip query \<noteq> [] \<and> (kk = None \<or> (\<exists>i. 0 < i \<and> kk = Some (KInt i))) \<longrightarrow>
            (\<exists>note evs.
               api_chat e g (Json (Some (Str query)) kk) =
                 (JsonOk \<lparr>question = strip query,
                          response = ''Invalid input: '' @ snd (validate_input (Str query) 5000),
                          context_provided_to_llm = note, sources = [],
                          mode = UNAVAILABLE, error = None\<rparr>, g, evs) \<and>
               list_all (\<lambda>ev. \<not> is_component_call ev) evs))"
  proof (intro allI impI conjI)
    fix g :: globals and kk :: "json_k option"
    assume a: "system_ready g \<and> rag_service g = Some self \<and> llm self \<noteq> None"
    assume "strip query = []"
    then show "api_chat e g (Json (Some (Str query)) kk) =
              (JsonError 400 ''Message cannot be empty'' None, g, [])"
      using a api_chat_blank_message[of g self query e kk] by simp
  next
    fix g :: globals and kk :: "json_k option"
    assume a: "system_ready g \<and> rag_service g = Some self \<and> llm self \<noteq> None"
    assume b: "strip query \<noteq> [] \<and> (kk = None \<or> (\<exists>i. 0 < i \<and> kk = Some (KInt i)))"
    from a have 1: "system_ready g" and 2: "rag_service g = Some self" and 3: "llm self \<noteq> None"
      by simp_all
    from b from_dict_message[of query kk] obtain req where
      4: "from_dict (Some (Str query)) kk = Parsed req" and 5: "message req = strip query"
      by blast
    have i: "\<not> fst (validate_input (Str (message req)) 5000)"
      using inv by (simp add: 5 validate_input_strip)
    show "\<exists>note evs.
               api_chat e g (Json (Some (Str query)) kk) =
                 (JsonOk \<lparr>question = strip query,
                          response = ''Invalid input: '' @ snd (validate_input (Str query) 5000),
                          context_provided_to_llm = note, sources = [],
                          mode = UNAVAILABLE, error = None\<rparr>, g, evs) \<and>
               list_all (\<lambda>ev. \<not> is_component_call ev) evs"
      unfolding api_chat_invalid_input[OF 1 2 3 4 i, of e] 5 validate_input_strip
      by (cases "is_rag_ready self") simp_all
  qed
qed

lemma validate_js:
  "validate_input (Str ''javascript:alert(1)'') 5000 = (False, ''Input contains suspicious content'')"
  by code_simp

lemma from_dict_js:
  "from_dict (Some (Str ''javascript:alert(1)'')) None =
     Parsed \<lparr>message = ''javascript:alert(1)'', k_context = None\<rparr>"
  by code_simp

lemma validate_blank: "validate_input (Str ''   '') 5000 = (False, ''Input cannot be empty'')"
  by code_simp

lemma strip_blank: "strip ''   '' = []"
  by code_simp

theorem validation_failure_short_circuits_witness:
  "\<not> fst (validate_input (Str ''javascript:alert(1)'') 5000) \<and>
   generate_response (service_full llm_echo db_two) ''javascript:alert(1)'' [] =
     ((''Invalid input: Input contains suspicious content'', UNAVAILABLE),
      service_full llm_echo db_two, []) \<and>
   search_similar_documents env_locked (service_full llm_echo db_two) ''javascript:alert(1)'' None =
     (([], []), service_full llm_echo db_two,
      [Log WARNING ''Invalid search query: Input contains suspicious content'']) \<and>
   \<not> fst (validate_input (Str ''   '') 5000) \<and>
   api_chat env_locked (globals_ready (service_full llm_echo db_two))
       (Json (Some (Str ''   '')) None) =
     (JsonError 400 ''Message cannot be empty'' None,
      globals_ready (service_full llm_echo db_two), [])"
proof -
  let ?rs = "service_full llm_echo db_two"
  let ?g = "globals_ready ?rs"
  have i: "\<not> fst (validate_input (Str ''javascript:alert(1)'') 5000)"
    by (simp add: validate_js)
  have b: "\<not> fst (validate_input (Str ''   '') 5000)"
    by (simp add: validate_blank)
  have l: "llm ?rs \<noteq> None" and d: "vector_db ?rs \<noteq> None"
    by (simp_all add: service_full_def)
  have q: "system_ready ?g \<and> rag_service ?g = Some ?rs \<and> llm ?rs \<noteq> None"
    by (simp add: globals_ready_def service_full_def)
  note t = validation_failure_short_circuits
             [of "''javascript:alert(1)''" ?rs "[]" env_locked None,
              THEN conjunct2, THEN conjunct2, rule_format, OF i]
  note t1 = t[THEN conjunct2, THEN conjunct1, rule_format, OF l]
  note t2 = t[THEN conjunct2, THEN conjunct2, THEN conjunct1, rule_format, OF d]
  note u = validation_failure_short_circuits
             [of "''   ''" ?rs "[]" env_locked None,
              THEN conjunct2, THEN conjunct2, rule_format, OF b]
  note u5 = u[THEN conjunct2, THEN conjunct2, THEN conjunct2, THEN conjunct2, rule_format, OF q,
              THEN conjunct1, rule_format, OF strip_blank]
  from t1 t2 i b u5 show ?thesis by (simp add: validate_js)
qed

theorem validation_accepts_padded_and_shares_mode:
  "length (replicate 5000 (CHR ''a'') @ '' '') = 5001 \<and>
   validate_input (Str (replicate 5000 (CHR ''a'') @ '' '')) 5000 = (True, []) \<and>
   api_chat env_locked (globals_ready (service_llm_only llm_down))
       (Json (Some (Str ''javascript:alert(1)'')) None) =
     (JsonOk \<lparr>question = ''javascript:alert(1)'',
              response = ''Invalid input: Input contains suspicious content'',
              context_provided_to_llm = ''LLM-only mode (no documents available)'',
              sources = [], mode = UNAVAILABLE, error = None\<rparr>,
      globals_ready (service_llm_only llm_down), []) \<and>
   api_chat env_locked (globals_ready (service_llm_only llm_down))
       (Json (Some (Str ''hello'')) None) =
     (JsonOk \<lparr>question = ''hello'',
              response = ''Sorry, an error occurred while generating the response'',
              context_provided_to_llm = ''LLM-only mode (no documents available)'',
              sources = [], mode = UNAVAILABLE, error = None\<rparr>,
      globals_ready (service_llm_only llm_down),
      [LLMInvoke ''hello'', Log ERROR ''Error generating response: connection reset''])"
proof (intro conjI)
  show "length (replicate 5000 (CHR ''a'') @ '' '') = 5001" by simp
  show "validate_input (Str (replicate 5000 (CHR ''a'') @ '' '')) 5000 = (True, [])"
    by (rule validate_long_padded)
  show "api_chat env_locked (globals_ready (service_llm_only llm_down))
       (Json (Some (Str ''javascript:alert(1)'')) None) =
     (JsonOk \<lparr>question = ''javascript:alert(1)'',
              response = ''Invalid input: Input contains suspicious content'',
              context_provided_to_llm = ''LLM-only mode (no documents available)'',
              sources = [], mode = UNAVAILABLE, error = None\<rparr>,
      globals_ready (service_llm_only llm_down), [])"
    by (simp add: api_chat_def globals_ready_def service_llm_only_def RAGService_new_def
        is_available_def is_rag_ready_def from_dict_js generate_response_def validate_js Let_def)
  show "api_chat env_locked (globals_ready (service_llm_only llm_down))
       (Json (Some (Str ''hello'')) None) =
     (JsonOk \<lparr>question = ''hello'',
              response = ''Sorry, an error occurred while generating the response'',
              context_provided_to_llm = ''LLM-only mode (no documents available)'',
              sources = [], mode = UNAVAILABLE, error = None\<rparr>,
      globals_ready (service_llm_only llm_down),
      [LLMInvoke ''hello'', Log ERROR ''Error generating response: connection reset''])"
    by (simp add: api_chat_def globals_ready_def service_llm_only_def RAGService_new_def
        is_available_def is_rag_ready_def from_dict_hello generate_response_def validate_hello
        llm_down_def Let_def)
qed

section \<open>Similarity search\<close>

lemma round4_mono:
  assumes "x \<le> y"
  shows "round4 x \<le> round4 y"
proof -
  define a where "a = x * 10000"
  define b where "b = y * 10000"
  have ab: "a \<le> b" using assms by (simp add: a_def b_def)
  define rnd :: "real \<Rightarrow> int" where
    "rnd = (\<lambda>y. let f = \<lfloor>y\<rfloor>; d = y - of_int f
       in if d < 1/2 then f else if 1/2 < d then f + 1 else if even f then f else f + 1)"
  have r4: "round4 z = of_int (rnd (z * 10000)) / 10000" for z
    by (simp add: round4_def rnd_def Let_def)
  have lo: "\<lfloor>z\<rfloor> \<le> rnd z" and hi: "rnd z \<le> \<lfloor>z\<rfloor> + 1" for z
    by (simp_all add: rnd_def Let_def)
  have "rnd a \<le> rnd b"
  proof (cases "\<lfloor>a\<rfloor> = \<lfloor>b\<rfloor>")
    case True
    then show ?thesis using ab by (auto simp: rnd_def Let_def)
  next
    case False
    then have "\<lfloor>a\<rfloor> < \<lfloor>b\<rfloor>" using floor_mono[OF ab] by simp
    then show ?thesis using hi[of a] lo[of b] by linarith
  qed
  then show ?thesis by (simp add: r4 a_def b_def divide_right_mono)
qed

lemma round4_close: "\<bar>round4 x - x\<bar> \<le> 1 / 20000"
proof -
  define y where "y = x * 10000"
  have f: "of_int \<lfloor>y\<rfloor> \<le> y" "y < of_int \<lfloor>y\<rfloor> + 1" by linarith+
  have "\<bar>round4 x * 10000 - y\<bar> \<le> 1 / 2"
    using f by (auto simp: round4_def Let_def y_def)
  then show ?thesis unfolding y_def abs_le_iff by linarith
qed

lemma sorted_scores_rounded:
  assumes "sorted (map snd rs)"
  shows "sorted (map (round4 \<circ> snd) rs)"
  using assms by (induction rs) (auto simp: round4_mono)

lemma score_make_source: "map score (map make_source rs) = map (round4 \<circ> snd) rs"
  by (induction rs) (auto simp: make_source_def)

text \<open>
  C8, as amended. For a valid query, when the index answers the search with a list of
  results, \<open>search_similar_documents\<close> returns exactly one source per result, in the order of
  that list: it does not sort and it does not cut the list, so the sources are at most
  \<open>k\<close> because the index returns at most \<open>k\<close> results. The score it reports is the
  index's score, a distance for which lower means more similar, rounded to four decimals
  (within \<open>0.00005\<close> of it). The index returns the nearest result first, by ascending
  distance, and rounding keeps that order: the reported scores are non-decreasing, the most
  similar result first. The unrounded score is not kept or used for anything else.
\<close>

theorem search_similar_documents_keeps_index_order:
  assumes "vector_db self = Some db"
    and "fst (validate_input (Str query) 5000)"
    and "kk = (case k of None \<Rightarrow> DEFAULT_K_RETRIEVAL e | Some i \<Rightarrow> i)"
    and "similarity_search_with_score db query kk = Inr results"
  shows "search_similar_documents e self query k =
      ((join ''\<newline>\<newline>---\<newline>\<newline>'' (map (\<lambda>(doc, s). page_content doc) results),
        map make_source results),
       self, [SimilaritySearch query kk]) \<and>
    length (map make_source results) = length results \<and>
    map score (map make_source results) = map (round4 \<circ> snd) results \<and>
    (\<forall>r \<in> set results. \<bar>round4 (snd r) - snd r\<bar> \<le> 1 / 20000) \<and>
    (int (length results) \<le> kk \<longrightarrow> int (length (map make_source results)) \<le> kk) \<and>
    (sorted (map snd results) \<longrightarrow> sorted (map score (map make_source results)))"
proof -
  obtain msg where v: "validate_input (Str query) 5000 = (True, msg)"
    using assms(2) by (cases "validate_input (Str query) 5000") auto
  have s: "search_similar_documents e self query k =
      ((join ''\<newline>\<newline>---\<newline>\<newline>'' (map (\<lambda>(doc, s). page_content doc) results),
        map make_source results),
       self, [SimilaritySearch query kk])"
    using assms(1,3,4) v by (cases "results = []") (simp_all add: search_similar_documents_def)
  have c: "\<forall>r \<in> set results. \<bar>round4 (snd r) - snd r\<bar> \<le> 1 / 20000"
    using round4_close by blast
  have o: "sorted (map snd results) \<longrightarrow> sorted (map score (map make_source results))"
    unfolding score_make_source using sorted_scores_rounded[of results] by blast
  have l: "length (map make_source results) = length results" by simp
  have k: "int (length results) \<le> kk \<longrightarrow> int (length (map make_source results)) \<le> kk"
    by simp
  from s l score_make_source[of results] c k o show ?thesis by blast
qed

lemma round4_examples: "round4 0.21234 = 0.2123" "round4 0.9 = 0.9"
  by (simp_all add: round4_def Let_def)

lemma make_source_examples:
  "make_source (doc_a, 0.21234) = \<lparr>source_file = ''a.pdf'', page = ''1'', score = 0.2123\<rparr>"
  "make_source (doc_b, 0.9) = \<lparr>source_file = ''Unknown'', page = ''N/A'', score = 0.9\<rparr>"
  by (simp_all add: make_source_def doc_a_def doc_b_def round4_def Let_def)

lemma page_content_examples: "page_content doc_a = ''alpha''" "page_content doc_b = ''beta''"
  by (simp_all add: doc_a_def doc_b_def)

lemma db_two_search:
  "similarity_search_with_score db_two q 2 = Inr [(doc_a, 0.21234), (doc_b, 0.9)]"
  "similarity_search_with_score db_two q 1 = Inr [(doc_a, 0.21234)]"
  by (simp_all add: db_two_def)

theorem search_similar_documents_keeps_index_order_witness:
  "similarity_search_with_score db_two ''hello'' 1 = Inr [(doc_a, 0.21234)] \<and>
   int (length [(doc_a, 0.21234 :: real)]) \<le> 1 \<and>
   search_similar_documents env_locked (service_full llm_echo db_two) ''hello'' (Some 1) =
     ((''alpha'', [\<lparr>source_file = ''a.pdf'', page = ''1'', score = 0.2123\<rparr>]),
      service_full llm_echo db_two, [SimilaritySearch ''hello'' 1]) \<and>
   int (length (map make_source [(doc_a, 0.21234)])) \<le> 1 \<and>
   sorted (map snd [(doc_a, 0.21234 :: real), (doc_b, 0.9)]) \<and>
   sorted (map score (map make_source [(doc_a, 0.21234), (doc_b, 0.9)]))"
proof -
  let ?rs = "service_full llm_echo db_two"
  have 1: "vector_db ?rs = Some db_two" by (simp add: service_full_def)
  have 2: "fst (validate_input (Str ''hello'') 5000)" by (simp add: validate_hello)
  have 3: "(1::int) = (case Some 1 of None \<Rightarrow> DEFAULT_K_RETRIEVAL env_locked | Some i \<Rightarrow> i)"
    by simp
  have k2: "(2::int) = (case Some 2 of None \<Rightarrow> DEFAULT_K_RETRIEVAL env_locked | Some i \<Rightarrow> i)"
    by simp
  have 5: "int (length [(doc_a, 0.21234 :: real)]) \<le> 1" by simp
  have 6: "sorted (map snd [(doc_a, 0.21234 :: real), (doc_b, 0.9)])" by simp
  note t = search_similar_documents_keeps_index_order[OF 1 2 3 db_two_search(2)]
  note t1 = t[THEN conjunct1]
  note t5 = t[THEN conjunct2, THEN conjunct2, THEN conjunct2, THEN conjunct2, THEN conjunct1,
              rule_format, OF 5]
  note u = search_similar_documents_keeps_index_order[OF 1 2 k2 db_two_search(1)]
  note u6 = u[THEN conjunct2, THEN conjunct2, THEN conjunct2, THEN conjunct2, THEN conjunct2,
              rule_format, OF 6]
  have s: "search_similar_documents env_locked ?rs ''hello'' (Some 1) =
     ((''alpha'', [\<lparr>source_file = ''a.pdf'', page = ''1'', score = 0.2123\<rparr>]),
      ?rs, [SimilaritySearch ''hello'' 1])"
    unfolding t1 list.map prod.case make_source_examples page_content_examples by simp
  from db_two_search(2)[of "''hello''"] 5 s t5 6 u6 show ?thesis by blast
qed

theorem search_similar_documents_ascending_scores:
  "similarity_search_with_score db_two ''hello'' 2 = Inr [(doc_a, 0.21234), (doc_b, 0.9)] \<and>
   search_similar_documents env_locked (service_full llm_echo db_two) ''hello'' (Some 2) =
     ((''alpha\<newline>\<newline>---\<newline>\<newline>beta'',
       [\<lparr>source_file = ''a.pdf'', page = ''1'', score = 0.2123\<rparr>,
        \<lparr>source_file = ''Unknown'', page = ''N/A'', score = 0.9\<rparr>]),
      service_full llm_echo db_two, [SimilaritySearch ''hello'' 2]) \<and>
   score \<lparr>source_file = ''a.pdf'', page = ''1'', score = 0.2123\<rparr>
     < score \<lparr>source_file = ''Unknown'', page = ''N/A'', score = 0.9\<rparr>"
proof -
  have A: "search_similar_documents env_locked (service_full llm_echo db_two) ''hello'' (Some 2) =
     ((join ''\<newline>\<newline>---\<newline>\<newline>'' [page_content doc_a, page_content doc_b],
       [make_source (doc_a, 0.21234), make_source (doc_b, 0.9)]),
      service_full llm_echo db_two, [SimilaritySearch ''hello'' 2])"
    by (simp add: search_similar_documents_def service_full_def validate_hello db_two_search)
  show ?thesis
    unfolding A make_source_examples page_content_examples db_two_search by simp
qed

end
